theory Spec2Isabelle
  imports Main "HOL-Library.List_Lexorder" "HOL-Library.Char_ord"
begin

section \<open>Data model (src/domain/types.ts, blackouts.ts, waitlist.ts)\<close>

text \<open>
  An \<open>ISODateTime\<close> is modelled by the instant it denotes, in milliseconds since the epoch
  (what \<open>new Date(s).getTime()\<close> returns). Every timestamp the engine writes comes from
  \<open>toISOString()\<close>, the fixed-width UTC form, on which string comparison
  (\<open><\<close>, \<open>localeCompare\<close>) is the order of the instants and \<open>startsWith(date)\<close> tests the UTC
  day; the model reads the string operations that way. A \<open>date\<close> (\<open>YYYY-MM-DD\<close>, naming a
  day of the calendar) is the number of its day since the epoch, a time of day (\<open>HH:MM\<close>)
  the pair of its two numbers, a time zone its offset from UTC in minutes, taken as fixed
  over the day. Numbers (\<open>partySize\<close>, \<open>durationMinutes\<close>, sizes) are integers. Fields that no
  operation reads (names, the creation times of venues, sectors, tables and blackouts, the
  reason of a blackout, the contact of a waitlist entry) are left out.
\<close>

type_synonym hhmm = "nat \<times> nat"

datatype BookingStatus = CONFIRMED | CANCELLED | PENDING

record Restaurant =
  r_id :: string
  r_timezone :: int
  r_windows :: "(hhmm \<times> hhmm) list"
  r_largeGroupThreshold :: "int option"

record Sector =
  s_id :: string
  s_restaurantId :: string

record Table =
  t_id :: string
  t_sectorId :: string
  t_minSize :: int
  t_maxSize :: int

record Booking =
  b_id :: string
  b_restaurantId :: string
  b_sectorId :: string
  b_tableIds :: "string list"
  b_partySize :: int
  b_start :: int
  b_end :: int
  b_durationMinutes :: int
  b_status :: BookingStatus
  b_createdAt :: int
  b_updatedAt :: int

record Gap =
  g_start :: int
  g_end :: int

datatype Kind = Single | Combo

record Candidate =
  c_kind :: Kind
  c_tableIds :: "string list"
  c_start :: int
  c_end :: int
  c_minCapacity :: int
  c_maxCapacity :: int
  c_score :: "int option"
  c_rationale :: "string option"

record Blackout =
  bl_id :: string
  bl_tableId :: string
  bl_start :: int
  bl_end :: int

record WaitlistEntry =
  w_id :: string
  w_restaurantId :: string
  w_sectorId :: string
  w_partySize :: int
  w_durationMinutes :: int
  w_date :: int
  w_windowStart :: "hhmm option"
  w_windowEnd :: "hhmm option"
  w_createdAt :: int
  w_expiresAt :: int

section \<open>The store (src/store/db.ts)\<close>

text \<open>
  A JavaScript \<open>Map\<close> iterates in insertion order and \<open>set\<close> on a present key keeps the
  key's place: each map is the list of its values, keyed by their id.
\<close>

record DB =
  restaurants :: "Restaurant list"
  sectors :: "Sector list"
  tables :: "Table list"
  bookings :: "Booking list"
  idempotencyCache :: "(string \<times> Booking \<times> int) list"
  blackouts :: "Blackout list"
  waitlist :: "WaitlistEntry list"

fun mapSet :: "('a \<Rightarrow> string) \<Rightarrow> 'a \<Rightarrow> 'a list \<Rightarrow> 'a list" where
  "mapSet key v [] = [v]"
| "mapSet key v (x # xs) = (if key x = key v then v # xs else x # mapSet key v xs)"

definition mapGet :: "('a \<Rightarrow> string) \<Rightarrow> string \<Rightarrow> 'a list \<Rightarrow> 'a option" where
  "mapGet key k xs = find (\<lambda>x. key x = k) xs"

definition mapDelete :: "('a \<Rightarrow> string) \<Rightarrow> string \<Rightarrow> 'a list \<Rightarrow> 'a list" where
  "mapDelete key k xs = filter (\<lambda>x. key x \<noteq> k) xs"

text \<open>
  \<open>isoDate\<close> is the date a start string begins with (\<open>startsWith(date)\<close>,
  \<open>split('T')[0]\<close>): for a string written by \<open>toISOString\<close>, the UTC day of the instant.
\<close>

definition isoDate :: "int \<Rightarrow> int" where
  "isoDate t = t div 86400000"

definition getRestaurant :: "DB \<Rightarrow> string \<Rightarrow> Restaurant option" where
  "getRestaurant db rid = mapGet r_id rid (restaurants db)"

definition getSector :: "DB \<Rightarrow> string \<Rightarrow> Sector option" where
  "getSector db sid = mapGet s_id sid (sectors db)"

definition getTablesBySector :: "DB \<Rightarrow> string \<Rightarrow> Table list" where
  "getTablesBySector db sectorId = filter (\<lambda>t. t_sectorId t = sectorId) (tables db)"

definition getBooking :: "DB \<Rightarrow> string \<Rightarrow> Booking option" where
  "getBooking db bid = mapGet b_id bid (bookings db)"

definition getBookingsByTablesAndDate :: "DB \<Rightarrow> string list \<Rightarrow> int \<Rightarrow> Booking list" where
  "getBookingsByTablesAndDate db tableIds date =
     sort_key b_start
       (filter (\<lambda>b. b_status b = CONFIRMED \<and> isoDate (b_start b) = date \<and>
                    (\<exists>tid \<in> set (b_tableIds b). tid \<in> set tableIds))
               (bookings db))"

definition getBlackoutsByTables :: "DB \<Rightarrow> string list \<Rightarrow> Blackout list" where
  "getBlackoutsByTables db tableIds = filter (\<lambda>b. bl_tableId b \<in> set tableIds) (blackouts db)"

section \<open>Interval engine (src/domain/gaps.ts, filterGapsByBlackouts of blackouts.ts)\<close>

definition toZonedIso :: "int \<Rightarrow> hhmm \<Rightarrow> int \<Rightarrow> int" where
  "toZonedIso date time timeZone =
     (date * 86400000 + (int (fst time) * 60 + int (snd time)) * 60000) - timeZone * 60 * 1000"

text \<open>The sweep of \<open>findGapsInWindow\<close>: \<open>cur\<close> is \<open>currentTimeTs\<close>.\<close>

fun sweepBookings :: "int \<Rightarrow> Booking list \<Rightarrow> int \<Rightarrow> Gap list" where
  "sweepBookings cur [] winEnd =
     (if cur < winEnd then [\<lparr>g_start = cur, g_end = winEnd\<rparr>] else [])"
| "sweepBookings cur (b # bs) winEnd =
     (if cur < b_start b then [\<lparr>g_start = cur, g_end = b_start b\<rparr>] else [])
     @ sweepBookings (if b_end b > cur then b_end b else cur) bs winEnd"

definition findGapsInWindow :: "Booking list \<Rightarrow> int \<Rightarrow> int \<Rightarrow> Gap list" where
  "findGapsInWindow bs windowStart windowEnd =
     sweepBookings windowStart
       (sort_key b_start (filter (\<lambda>b. b_start b < windowEnd \<and> b_end b > windowStart) bs))
       windowEnd"

text \<open>The split of one gap around its overlapping blackouts: \<open>cur\<close> is \<open>currentStart\<close>.\<close>

fun splitAround :: "int \<Rightarrow> Blackout list \<Rightarrow> int \<Rightarrow> Gap list" where
  "splitAround cur [] gapEnd =
     (if cur < gapEnd then [\<lparr>g_start = cur, g_end = gapEnd\<rparr>] else [])"
| "splitAround cur (b # bs) gapEnd =
     (if cur < bl_start b then [\<lparr>g_start = cur, g_end = bl_start b\<rparr>] else [])
     @ splitAround (max cur (bl_end b)) bs gapEnd"

definition filterGap :: "Blackout list \<Rightarrow> Gap \<Rightarrow> Gap list" where
  "filterGap bls gap =
     (let overlappingBlackouts =
            filter (\<lambda>b. bl_start b < g_end gap \<and> bl_end b > g_start gap) bls
      in if overlappingBlackouts = [] then [gap]
         else splitAround (g_start gap) (sort_key bl_start overlappingBlackouts) (g_end gap))"

definition filterGapsByBlackouts :: "DB \<Rightarrow> Gap list \<Rightarrow> string list \<Rightarrow> Gap list" where
  "filterGapsByBlackouts db gaps tableIds =
     (let bls = getBlackoutsByTables db tableIds
      in if bls = [] then gaps else concat (map (filterGap bls) gaps))"

definition findTableGaps :: "DB \<Rightarrow> string \<Rightarrow> int \<Rightarrow> (hhmm \<times> hhmm) list \<Rightarrow> int \<Rightarrow> Gap list" where
  "findTableGaps db tableId date serviceWindows tz =
     (let bs = getBookingsByTablesAndDate db [tableId] date
      in if serviceWindows = []
         then findGapsInWindow bs (toZonedIso date (0, 0) tz) (toZonedIso date (23, 59) tz)
         else filterGapsByBlackouts db
                (concat (map (\<lambda>w. findGapsInWindow bs (toZonedIso date (fst w) tz)
                                                       (toZonedIso date (snd w) tz))
                             serviceWindows))
                [tableId])"

text \<open>The two-pointer merge: the heads of the two lists are the gaps under the cursors.\<close>

fun intersectGaps :: "Gap list \<Rightarrow> Gap list \<Rightarrow> Gap list" where
  "intersectGaps [] gaps2 = []"
| "intersectGaps (gap1 # r1) [] = []"
| "intersectGaps (gap1 # r1) (gap2 # r2) =
     (let overlapStart = (if g_start gap1 > g_start gap2 then g_start gap1 else g_start gap2);
          overlapEnd = (if g_end gap1 < g_end gap2 then g_end gap1 else g_end gap2)
      in (if overlapStart < overlapEnd then [\<lparr>g_start = overlapStart, g_end = overlapEnd\<rparr>] else [])
         @ (if g_end gap1 < g_end gap2 then intersectGaps r1 (gap2 # r2)
            else intersectGaps (gap1 # r1) r2))"

definition findComboGaps :: "DB \<Rightarrow> string list \<Rightarrow> int \<Rightarrow> (hhmm \<times> hhmm) list \<Rightarrow> int \<Rightarrow> Gap list" where
  "findComboGaps db tableIds date serviceWindows tz =
     (case tableIds of
        [] \<Rightarrow> []
      | [tableId] \<Rightarrow> findTableGaps db tableId date serviceWindows tz
      | _ \<Rightarrow>
          (let tableGaps = map (\<lambda>tableId. findTableGaps db tableId date serviceWindows tz) tableIds
           in filterGapsByBlackouts db (foldl intersectGaps (hd tableGaps) (tl tableGaps)) tableIds))"

text \<open>
  \<open>roundToSlot\<close> reads the minute of the hour (\<open>getMinutes\<close>) and, when it is not on the grid,
  sets it (\<open>setMinutes\<close>, which carries into the hour) and clears seconds and milliseconds.
  The process's zone is taken at a whole number of hours from UTC, so that the minute of the
  hour is that of the instant. \<open>slotMinutes\<close> is the default 15 of every call in the source.
\<close>

definition slotMinutes :: int where
  "slotMinutes = 15"

datatype Direction = Up | Down

definition getMinutes :: "int \<Rightarrow> int" where
  "getMinutes t = (t div 60000) mod 60"

definition roundToSlot :: "int \<Rightarrow> Direction \<Rightarrow> int" where
  "roundToSlot t direction =
     (let minutes = getMinutes t; remainder = minutes mod slotMinutes
      in if remainder = 0 then t
         else (case direction of
                 Up \<Rightarrow> (t div 60000 - minutes + (minutes + (slotMinutes - remainder))) * 60000
               | Down \<Rightarrow> (t div 60000 - minutes + (minutes - remainder)) * 60000))"

function slotsFrom :: "int \<Rightarrow> int \<Rightarrow> int \<Rightarrow> Gap list" where
  "slotsFrom currentStart durationMinutes roundedEnd =
     (if currentStart + durationMinutes * 60 * 1000 \<le> roundedEnd
      then \<lparr>g_start = currentStart, g_end = currentStart + durationMinutes * 60 * 1000\<rparr>
           # slotsFrom (currentStart + slotMinutes * 60 * 1000) durationMinutes roundedEnd
      else [])"
  by pat_completeness auto
termination
  by (relation "measure (\<lambda>(c, d, e). nat (e - (c + d * 60 * 1000) + 1))")
     (auto simp: slotMinutes_def)

definition slotsOfGap :: "int \<Rightarrow> Gap \<Rightarrow> Gap list" where
  "slotsOfGap durationMinutes gap =
     (let roundedStart = roundToSlot (g_start gap) Up;
          roundedEnd = roundToSlot (g_end gap) Down
      in if roundedEnd - roundedStart \<ge> durationMinutes * (1000 * 60)
         then slotsFrom roundedStart durationMinutes roundedEnd
         else [])"

definition filterGapsByDuration :: "Gap list \<Rightarrow> int \<Rightarrow> Gap list" where
  "filterGapsByDuration gaps durationMinutes = concat (map (slotsOfGap durationMinutes) gaps)"

section \<open>Allocation strategy (src/domain/wokibrain.ts)\<close>

definition calculateComboCapacity :: "Table list \<Rightarrow> int \<times> int" where
  "calculateComboCapacity ts =
     (foldl (\<lambda>sum t. sum + t_minSize t) 0 ts, foldl (\<lambda>sum t. sum + t_maxSize t) 0 ts)"

text \<open>
  \<open>combine\<close> on the suffix of \<open>arr\<close> from index \<open>start\<close> and the number of elements still to
  pick returns the completions of the current \<open>combo\<close>, in the order the backtracking
  pushes them.
\<close>

fun combine :: "'a list \<Rightarrow> nat \<Rightarrow> 'a list list" where
  "combine arr 0 = [[]]"
| "combine [] (Suc k) = []"
| "combine (x # xs) (Suc k) = map ((#) x) (combine xs k) @ combine xs (Suc k)"

definition generateCombinations :: "'a list \<Rightarrow> nat \<Rightarrow> 'a list list" where
  "generateCombinations arr minSize =
     (if minSize \<le> 0 \<or> minSize > length arr then []
      else concat (map (combine arr) [minSize ..< Suc (length arr)]))"

text \<open>Decimal text of a number, as a template literal prints it.\<close>

fun showNat :: "nat \<Rightarrow> string" where
  "showNat n = (if n < 10 then [''0123456789'' ! n]
                else showNat (n div 10) @ [''0123456789'' ! (n mod 10)])"

definition showInt :: "int \<Rightarrow> string" where
  "showInt i = (if i < 0 then CHR ''-'' # showNat (nat (- i)) else showNat (nat i))"

fun join :: "string \<Rightarrow> string list \<Rightarrow> string" where
  "join sep [] = []"
| "join sep [x] = x"
| "join sep (x # y # ys) = x @ sep @ join sep (y # ys)"

text \<open>JavaScript's \<open>%\<close> takes the sign of the dividend.\<close>

definition jsRem :: "int \<Rightarrow> int \<Rightarrow> int" where
  "jsRem a b = sgn a * (\<bar>a\<bar> mod \<bar>b\<bar>)"

definition scoreCandidate :: "int \<Rightarrow> Candidate \<Rightarrow> Candidate" where
  "scoreCandidate partySize candidate =
     (let waste = c_maxCapacity candidate - partySize;
          startTime = c_start candidate;
          baseScore = (if c_kind candidate = Single then 0 else 1000);
          wasteScore = waste * 10;
          timeScore = jsRem (startTime div 1000) 10000;
          reasons =
            [if c_kind candidate = Single then ''single table''
             else showNat (length (c_tableIds candidate)) @ ''-table combo'',
             ''capacity: '' @ showInt (c_minCapacity candidate) @ ''-''
               @ showInt (c_maxCapacity candidate),
             if waste = 0 then ''perfect fit''
             else showInt waste @ '' seat'' @ (if waste > 1 then ''s'' else []) @ '' spare'']
      in candidate\<lparr>c_score := Some (baseScore + wasteScore + timeScore),
                   c_rationale := Some (join '', '' reasons)\<rparr>)"

text \<open>
  \<open>localeCompare\<close> on two timestamps is the sign of their order. On the joined table ids it
  is the collation of the locale the process runs in, which the source does not fix (it
  puts \<open>a\<close> before \<open>B\<close> where the character codes do not): \<open>collate\<close> stands for that
  comparison and is a parameter of every operation that sorts candidates. The default
  \<open>sort()\<close> of the ids is by character code.
\<close>

definition localeCompare :: "'a::linorder \<Rightarrow> 'a \<Rightarrow> int" where
  "localeCompare a b = (if a < b then - 1 else if b < a then 1 else 0)"

definition compareCandidates ::
  "(string \<Rightarrow> string \<Rightarrow> int) \<Rightarrow> int \<Rightarrow> Candidate \<Rightarrow> Candidate \<Rightarrow> int" where
  "compareCandidates collate partySize a b =
     (if c_kind a \<noteq> c_kind b then (if c_kind a = Single then - 1 else 1)
      else let timeDiff = localeCompare (c_start a) (c_start b)
           in if timeDiff \<noteq> 0 then timeDiff
              else let wasteA = c_maxCapacity a - partySize;
                       wasteB = c_maxCapacity b - partySize
                   in if wasteA \<noteq> wasteB then wasteA - wasteB
                      else collate (join '','' (sort (c_tableIds a)))
                                   (join '','' (sort (c_tableIds b))))"

text \<open>
  On its fourth step, reached when the two candidates agree in kind, start and waste, the
  comparator sorts the \<open>tableIds\<close> of both in place, and the candidates of one combination
  hold the same array. Whichever comparisons the engine's sort makes, it has to compare a
  candidate with another of the same kind, start and waste when the list has one (no other
  comparison tells their order), and it compares no candidate with itself. So an array of
  ids is sorted in the result exactly when a candidate holding it has such a companion.
\<close>

definition sameRank :: "int \<Rightarrow> Candidate \<Rightarrow> Candidate \<Rightarrow> bool" where
  "sameRank partySize a b =
     (c_kind a = c_kind b \<and> c_start a = c_start b \<and>
      c_maxCapacity a - partySize = c_maxCapacity b - partySize)"

definition idsReached :: "int \<Rightarrow> Candidate list \<Rightarrow> string list \<Rightarrow> bool" where
  "idsReached partySize candidates ids =
     (\<exists>a \<in> set candidates. c_tableIds a = ids \<and>
                             length (filter (sameRank partySize a) candidates) \<ge> 2)"

definition settleIds :: "int \<Rightarrow> Candidate list \<Rightarrow> Candidate \<Rightarrow> Candidate" where
  "settleIds partySize candidates c =
     (if idsReached partySize candidates (c_tableIds c)
      then c\<lparr>c_tableIds := sort (c_tableIds c)\<rparr> else c)"

text \<open>
  \<open>Array.prototype.sort\<close> is stable: with a consistent comparator its result is the one of
  stable insertion.
\<close>

fun insertBy :: "('a \<Rightarrow> 'a \<Rightarrow> int) \<Rightarrow> 'a \<Rightarrow> 'a list \<Rightarrow> 'a list" where
  "insertBy cmp x [] = [x]"
| "insertBy cmp x (y # ys) = (if cmp x y \<le> 0 then x # y # ys else y # insertBy cmp x ys)"

definition sortBy :: "('a \<Rightarrow> 'a \<Rightarrow> int) \<Rightarrow> 'a list \<Rightarrow> 'a list" where
  "sortBy cmp xs = foldr (insertBy cmp) xs []"

definition clipToWindow :: "(int \<times> int) option \<Rightarrow> Gap list \<Rightarrow> Gap list" where
  "clipToWindow requested validGaps =
     (case requested of
        None \<Rightarrow> validGaps
      | Some (requestedStartTs, requestedEndTs) \<Rightarrow>
          filter (\<lambda>gap. g_start gap \<ge> requestedStartTs \<and> g_end gap \<le> requestedEndTs) validGaps)"

definition singleCandidates ::
  "DB \<Rightarrow> int \<Rightarrow> int \<Rightarrow> int \<Rightarrow> (hhmm \<times> hhmm) list \<Rightarrow> int \<Rightarrow> (int \<times> int) option \<Rightarrow> Table \<Rightarrow> Candidate list" where
  "singleCandidates db date partySize durationMinutes activeWindows tz requested table =
     (if partySize < t_minSize table \<or> partySize > t_maxSize table then []
      else map (\<lambda>gap. \<lparr>c_kind = Single, c_tableIds = [t_id table],
                        c_start = g_start gap, c_end = g_end gap,
                        c_minCapacity = t_minSize table, c_maxCapacity = t_maxSize table,
                        c_score = None, c_rationale = None\<rparr>)
               (clipToWindow requested
                  (filterGapsByDuration (findTableGaps db (t_id table) date activeWindows tz)
                     durationMinutes)))"

definition comboCandidates ::
  "DB \<Rightarrow> Table list \<Rightarrow> int \<Rightarrow> int \<Rightarrow> int \<Rightarrow> (hhmm \<times> hhmm) list \<Rightarrow> int \<Rightarrow> (int \<times> int) option
     \<Rightarrow> string list \<Rightarrow> Candidate list" where
  "comboCandidates db ts date partySize durationMinutes activeWindows tz requested comboTableIds =
     (let comboTables = concat (map (\<lambda>tid. case find (\<lambda>t. t_id t = tid) ts of
                                               None \<Rightarrow> [] | Some t \<Rightarrow> [t]) comboTableIds);
          capacity = calculateComboCapacity comboTables
      in if partySize < fst capacity \<or> partySize > snd capacity then []
         else map (\<lambda>gap. \<lparr>c_kind = Combo, c_tableIds = comboTableIds,
                           c_start = g_start gap, c_end = g_end gap,
                           c_minCapacity = fst capacity, c_maxCapacity = snd capacity,
                           c_score = None, c_rationale = None\<rparr>)
                  (clipToWindow requested
                     (filterGapsByDuration (findComboGaps db comboTableIds date activeWindows tz)
                        durationMinutes)))"

text \<open>
  \<open>findCandidates\<close>, in the order of its body: the requested window as two instants, the
  service windows it meets, the single-table and the combination candidates, their scores,
  the sort and the cut.
\<close>

definition requestedRange :: "int \<Rightarrow> int \<Rightarrow> hhmm option \<Rightarrow> hhmm option \<Rightarrow> (int \<times> int) option" where
  "requestedRange date tz requestedWindowStart requestedWindowEnd =
     (case (requestedWindowStart, requestedWindowEnd) of
        (Some rs, Some re) \<Rightarrow> Some (toZonedIso date rs tz, toZonedIso date re tz)
      | _ \<Rightarrow> None)"

definition activeWindowsOf ::
  "int \<Rightarrow> int \<Rightarrow> (int \<times> int) option \<Rightarrow> (hhmm \<times> hhmm) list \<Rightarrow> (hhmm \<times> hhmm) list" where
  "activeWindowsOf date tz requested serviceWindows =
     (case requested of
        None \<Rightarrow> serviceWindows
      | Some (requestedStartIso, requestedEndIso) \<Rightarrow>
          filter (\<lambda>w. requestedStartIso < toZonedIso date (snd w) tz \<and>
                       requestedEndIso > toZonedIso date (fst w) tz) serviceWindows)"

definition allCandidates ::
  "DB \<Rightarrow> Table list \<Rightarrow> int \<Rightarrow> int \<Rightarrow> int \<Rightarrow> (hhmm \<times> hhmm) list \<Rightarrow> int \<Rightarrow> (int \<times> int) option
     \<Rightarrow> Candidate list" where
  "allCandidates db ts date partySize durationMinutes activeWindows tz requested =
     concat (map (singleCandidates db date partySize durationMinutes activeWindows tz requested) ts)
     @ concat (map (comboCandidates db ts date partySize durationMinutes activeWindows tz requested)
                   (generateCombinations (map t_id ts) 2))"

definition findCandidates ::
  "(string \<Rightarrow> string \<Rightarrow> int) \<Rightarrow> DB \<Rightarrow> string \<Rightarrow> int \<Rightarrow> int \<Rightarrow> int \<Rightarrow> (hhmm \<times> hhmm) list \<Rightarrow> int
     \<Rightarrow> hhmm option \<Rightarrow> hhmm option \<Rightarrow> nat \<Rightarrow> Candidate list" where
  "findCandidates collate db sectorId date partySize durationMinutes serviceWindows tz
                  requestedWindowStart requestedWindowEnd limit =
     (let ts = getTablesBySector db sectorId
      in if ts = [] then []
         else
           let requested = requestedRange date tz requestedWindowStart requestedWindowEnd;
               activeWindows = activeWindowsOf date tz requested serviceWindows
           in if requested \<noteq> None \<and> activeWindows = [] then []
              else
                let candidates = map (scoreCandidate partySize)
                                   (allCandidates db ts date partySize durationMinutes
                                      activeWindows tz requested)
                in take limit
                     (map (settleIds partySize candidates)
                        (sortBy (compareCandidates collate partySize) candidates)))"

definition selectBestCandidate ::
  "(string \<Rightarrow> string \<Rightarrow> int) \<Rightarrow> DB \<Rightarrow> string \<Rightarrow> int \<Rightarrow> int \<Rightarrow> int \<Rightarrow> (hhmm \<times> hhmm) list \<Rightarrow> int
     \<Rightarrow> hhmm option \<Rightarrow> hhmm option \<Rightarrow> Candidate option" where
  "selectBestCandidate collate db sectorId date partySize durationMinutes serviceWindows tz
                       requestedWindowStart requestedWindowEnd =
     (case findCandidates collate db sectorId date partySize durationMinutes serviceWindows tz
             requestedWindowStart requestedWindowEnd 1 of
        [] \<Rightarrow> None
      | c # _ \<Rightarrow> Some c)"

section \<open>Booking transaction (src/domain/booking-service.ts)\<close>

datatype Error = invalid_input | not_found | no_capacity | outside_service_window

text \<open>
  A date or time argument either matches its pattern (\<open>\d{4}-\d{2}-\d{2}\<close>, \<open>\d{2}:\d{2}\<close>)
  and is the value it denotes, or does not. An absent optional argument and the empty string
  are both falsy and are \<open>None\<close>.
\<close>

datatype 'a Parsed = Malformed | Wellformed 'a

text \<open>
  What a call reads from outside the store: the clock on entry and inside the lock, and the
  identifiers that \<open>generateBookingId\<close> and \<open>addToWaitlist\<close> draw (the part of the
  waitlist id after \<open>WL_\<close>). Metrics and logging are not modelled.
\<close>

record Env =
  e_now :: int
  e_lockNow :: int
  e_bookingId :: string
  e_waitlistId :: string

definition isBlank :: "string \<Rightarrow> bool" where
  "isBlank s = (\<forall>c \<in> set s. c \<in> {CHR '' '', CHR 0x09, CHR 0x0A, CHR 0x0B, CHR 0x0C, CHR 0x0D, CHR 0xA0})"

definition keyOf :: "string option \<Rightarrow> string option" where
  "keyOf idempotencyKey = (case idempotencyKey of None \<Rightarrow> None | Some k \<Rightarrow> if k = [] then None else Some k)"

definition timeOf :: "hhmm Parsed option \<Rightarrow> hhmm option" where
  "timeOf t = (case t of Some (Wellformed v) \<Rightarrow> Some v | _ \<Rightarrow> None)"

definition hmLess :: "hhmm \<Rightarrow> hhmm \<Rightarrow> bool" where
  "hmLess a b = (fst a < fst b \<or> (fst a = fst b \<and> snd a < snd b))"

definition hmLessEq :: "hhmm \<Rightarrow> hhmm \<Rightarrow> bool" where
  "hmLessEq a b = (hmLess a b \<or> a = b)"

definition getIdempotency :: "DB \<Rightarrow> int \<Rightarrow> string \<Rightarrow> Booking option \<times> DB" where
  "getIdempotency db now key =
     (case find (\<lambda>e. fst e = key) (idempotencyCache db) of
        None \<Rightarrow> (None, db)
      | Some (k, booking, expiresAt) \<Rightarrow>
          if now > expiresAt
          then (None, db\<lparr>idempotencyCache := filter (\<lambda>e. fst e \<noteq> key) (idempotencyCache db)\<rparr>)
          else (Some booking, db))"

definition setIdempotency :: "DB \<Rightarrow> int \<Rightarrow> string \<Rightarrow> Booking \<Rightarrow> int \<Rightarrow> DB" where
  "setIdempotency db now key booking ttlSeconds =
     db\<lparr>idempotencyCache := mapSet fst (key, booking, now + ttlSeconds * 1000) (idempotencyCache db)\<rparr>"

definition lookupIdempotency :: "DB \<Rightarrow> int \<Rightarrow> string option \<Rightarrow> Booking option \<times> DB" where
  "lookupIdempotency db now idempotencyKey =
     (case keyOf idempotencyKey of None \<Rightarrow> (None, db) | Some k \<Rightarrow> getIdempotency db now k)"

definition dbCreateBooking :: "DB \<Rightarrow> Booking \<Rightarrow> DB" where
  "dbCreateBooking db booking = db\<lparr>bookings := mapSet b_id booking (bookings db)\<rparr>"

definition deleteBooking :: "DB \<Rightarrow> string \<Rightarrow> DB" where
  "deleteBooking db bid = db\<lparr>bookings := mapDelete b_id bid (bookings db)\<rparr>"

definition updateBooking :: "DB \<Rightarrow> int \<Rightarrow> string \<Rightarrow> (Booking \<Rightarrow> Booking) \<Rightarrow> DB" where
  "updateBooking db now bid updates =
     (case getBooking db bid of
        None \<Rightarrow> db
      | Some booking \<Rightarrow> db\<lparr>bookings := mapSet b_id ((updates booking)\<lparr>b_updatedAt := now\<rparr>) (bookings db)\<rparr>)"

definition deleteWaitlistEntry :: "DB \<Rightarrow> string \<Rightarrow> DB" where
  "deleteWaitlistEntry db wid = db\<lparr>waitlist := mapDelete w_id wid (waitlist db)\<rparr>"

definition addToWaitlist ::
  "DB \<Rightarrow> Env \<Rightarrow> string \<Rightarrow> string \<Rightarrow> int \<Rightarrow> int \<Rightarrow> int \<Rightarrow> hhmm option \<Rightarrow> hhmm option
     \<Rightarrow> WaitlistEntry \<times> DB" where
  "addToWaitlist db env restaurantId sectorId partySize durationMinutes date windowStart windowEnd =
     (let entry = \<lparr>w_id = ''WL_'' @ e_waitlistId env, w_restaurantId = restaurantId,
                    w_sectorId = sectorId, w_partySize = partySize,
                    w_durationMinutes = durationMinutes, w_date = date,
                    w_windowStart = windowStart, w_windowEnd = windowEnd,
                    w_createdAt = e_now env, w_expiresAt = e_now env + 60 * 60 * 1000\<rparr>
      in (entry, db\<lparr>waitlist := mapSet w_id entry (waitlist db)\<rparr>))"

text \<open>
  The critical section, from the re-check of the idempotency key to the commit. It runs to
  completion once the lock is held; \<open>generateLockKey\<close> has sorted the candidate's
  \<open>tableIds\<close> in place before, which \<open>createBooking\<close> below does at the call.
\<close>

definition createBookingLocked ::
  "DB \<Rightarrow> Env \<Rightarrow> Restaurant \<Rightarrow> string \<Rightarrow> string \<Rightarrow> int \<Rightarrow> int \<Rightarrow> int \<Rightarrow> string option
     \<Rightarrow> Candidate \<Rightarrow> (Error + Booking) \<times> DB" where
  "createBookingLocked db env restaurant restaurantId sectorId partySize durationMinutes date
                       idempotencyKey candidate =
     (case lookupIdempotency db (e_lockNow env) idempotencyKey of
        (Some existing, db1) \<Rightarrow> (Inr existing, db1)
      | (None, db1) \<Rightarrow>
          let conflictingBookings = getBookingsByTablesAndDate db1 (c_tableIds candidate) date;
              hasConflict = (\<exists>booking \<in> set conflictingBookings.
                               b_status booking = CONFIRMED \<and>
                               b_start booking < c_end candidate \<and>
                               b_end booking > c_start candidate)
          in if hasConflict then (Inl no_capacity, db1)
             else
               let largeGroupThreshold =
                     (case r_largeGroupThreshold restaurant of
                        None \<Rightarrow> 10 | Some t \<Rightarrow> if t = 0 then 10 else t);
                   requiresApproval = (partySize \<ge> largeGroupThreshold);
                   booking = \<lparr>b_id = e_bookingId env, b_restaurantId = restaurantId,
                              b_sectorId = sectorId, b_tableIds = c_tableIds candidate,
                              b_partySize = partySize, b_start = c_start candidate,
                              b_end = c_end candidate, b_durationMinutes = durationMinutes,
                              b_status = (if requiresApproval then PENDING else CONFIRMED),
                              b_createdAt = e_lockNow env, b_updatedAt = e_lockNow env\<rparr>;
                   db2 = dbCreateBooking db1 booking
               in (Inr booking,
                   case keyOf idempotencyKey of
                     None \<Rightarrow> db2
                   | Some k \<Rightarrow> setIdempotency db2 (e_lockNow env) k booking 60))"

text \<open>The implicit waitlist: no candidate, so an entry is queued and a placeholder returned.\<close>

definition enqueuePending ::
  "DB \<Rightarrow> Env \<Rightarrow> Restaurant \<Rightarrow> string \<Rightarrow> string \<Rightarrow> int \<Rightarrow> int \<Rightarrow> int \<Rightarrow> hhmm option \<Rightarrow> hhmm option
     \<Rightarrow> (Error + Booking) \<times> DB" where
  "enqueuePending db env restaurant restaurantId sectorId partySize durationMinutes date
                  requestedWindowStart requestedWindowEnd =
     (let (waitlistEntry, db1) = addToWaitlist db env restaurantId sectorId partySize
                                   durationMinutes date requestedWindowStart requestedWindowEnd;
          placeholderStart =
            (case requestedWindowStart of
               Some t \<Rightarrow> toZonedIso date t (r_timezone restaurant)
             | None \<Rightarrow> (case r_windows restaurant of
                          w # _ \<Rightarrow> toZonedIso date (fst w) (r_timezone restaurant)
                        | [] \<Rightarrow> e_now env));
          placeholderEnd = placeholderStart + durationMinutes * 60 * 1000;
          booking = \<lparr>b_id = ''BK_'' @ e_waitlistId env, b_restaurantId = restaurantId,
                     b_sectorId = sectorId, b_tableIds = [], b_partySize = partySize,
                     b_start = placeholderStart, b_end = placeholderEnd,
                     b_durationMinutes = durationMinutes, b_status = PENDING,
                     b_createdAt = e_now env, b_updatedAt = e_now env\<rparr>
      in (Inr booking, dbCreateBooking db1 booking))"

definition createBooking ::
  "(string \<Rightarrow> string \<Rightarrow> int) \<Rightarrow> DB \<Rightarrow> Env \<Rightarrow> string \<Rightarrow> string \<Rightarrow> int \<Rightarrow> int \<Rightarrow> int Parsed \<Rightarrow> string option
     \<Rightarrow> hhmm Parsed option \<Rightarrow> hhmm Parsed option \<Rightarrow> (Error + Booking) \<times> DB" where
  "createBooking collate db env restaurantId sectorId partySize durationMinutes date idempotencyKey
                 requestedWindowStart requestedWindowEnd =
     (if isBlank restaurantId then (Inl invalid_input, db)
      else if isBlank sectorId then (Inl invalid_input, db)
      else if partySize \<le> 0 then (Inl invalid_input, db)
      else if durationMinutes \<le> 0 \<or> durationMinutes mod 15 \<noteq> 0 then (Inl invalid_input, db)
      else case date of
        Malformed \<Rightarrow> (Inl invalid_input, db)
      | Wellformed day \<Rightarrow>
          if requestedWindowStart = Some Malformed then (Inl invalid_input, db)
          else if requestedWindowEnd = Some Malformed then (Inl invalid_input, db)
          else
            let rws = timeOf requestedWindowStart; rwe = timeOf requestedWindowEnd
            in if (case (rws, rwe) of (Some a, Some b) \<Rightarrow> \<not> hmLess a b | _ \<Rightarrow> False)
               then (Inl invalid_input, db)
               else
                 case lookupIdempotency db (e_now env) idempotencyKey of
                   (Some existing, db1) \<Rightarrow> (Inr existing, db1)
                 | (None, db1) \<Rightarrow>
                     (case getRestaurant db1 restaurantId of
                        None \<Rightarrow> (Inl not_found, db1)
                      | Some restaurant \<Rightarrow>
                          (case getSector db1 sectorId of
                             None \<Rightarrow> (Inl not_found, db1)
                           | Some sector \<Rightarrow>
                               if s_restaurantId sector \<noteq> restaurantId then (Inl not_found, db1)
                               else
                                 (case selectBestCandidate collate db1 sectorId day partySize
                                         durationMinutes (r_windows restaurant)
                                         (r_timezone restaurant) rws rwe of
                                    None \<Rightarrow>
                                      enqueuePending db1 env restaurant restaurantId sectorId
                                        partySize durationMinutes day rws rwe
                                  | Some candidate \<Rightarrow>
                                      let hasValidWindow =
                                            (case (rws, rwe) of
                                               (Some a, Some b) \<Rightarrow>
                                                 (\<exists>w \<in> set (r_windows restaurant).
                                                    hmLessEq (fst w) a \<and> hmLessEq b (snd w))
                                             | _ \<Rightarrow> True)
                                      in if \<not> hasValidWindow \<and> r_windows restaurant \<noteq> []
                                         then (Inl outside_service_window, db1)
                                         else createBookingLocked db1 env restaurant restaurantId
                                                sectorId partySize durationMinutes day
                                                idempotencyKey
                                                (candidate\<lparr>c_tableIds := sort (c_tableIds candidate)\<rparr>)))))"

section \<open>Waitlist replay (src/domain/waitlist.ts)\<close>

definition getWaitlistEntriesBySectorAndDate :: "DB \<Rightarrow> int \<Rightarrow> string \<Rightarrow> int \<Rightarrow> WaitlistEntry list" where
  "getWaitlistEntriesBySectorAndDate db now sectorId date =
     sort_key w_createdAt
       (filter (\<lambda>e. w_sectorId e = sectorId \<and> w_date e = date \<and> w_expiresAt e > now)
               (waitlist db))"

text \<open>The Booking Transaction called with an entry's frozen parameters and no idempotency key.\<close>

definition replayEntry ::
  "(string \<Rightarrow> string \<Rightarrow> int) \<Rightarrow> DB \<Rightarrow> Env \<Rightarrow> WaitlistEntry \<Rightarrow> (Error + Booking) \<times> DB" where
  "replayEntry collate db env entry =
     createBooking collate db env (w_restaurantId entry) (w_sectorId entry) (w_partySize entry)
       (w_durationMinutes entry) (Wellformed (w_date entry)) None
       (map_option Wellformed (w_windowStart entry)) (map_option Wellformed (w_windowEnd entry))"

text \<open>
  The loop of \<open>tryPromoteWaitlist\<close>; \<open>clock i\<close> is what the \<open>i\<close>-th iteration reads from
  outside the store.
\<close>

fun promoteLoop ::
  "(string \<Rightarrow> string \<Rightarrow> int) \<Rightarrow> DB \<Rightarrow> (nat \<Rightarrow> Env) \<Rightarrow> nat \<Rightarrow> WaitlistEntry list
     \<Rightarrow> WaitlistEntry list \<times> DB" where
  "promoteLoop collate db clock i [] = ([], db)"
| "promoteLoop collate db clock i (entry # rest) =
     (if w_expiresAt entry < e_now (clock i)
      then promoteLoop collate (deleteWaitlistEntry db (w_id entry)) clock (Suc i) rest
      else case replayEntry collate db (clock i) entry of
             (Inr booking, db1) \<Rightarrow> ([entry], deleteWaitlistEntry db1 (w_id entry))
           | (Inl err, db1) \<Rightarrow> promoteLoop collate db1 clock (Suc i) rest)"

definition tryPromoteWaitlist ::
  "(string \<Rightarrow> string \<Rightarrow> int) \<Rightarrow> DB \<Rightarrow> int \<Rightarrow> (nat \<Rightarrow> Env) \<Rightarrow> string \<Rightarrow> int \<Rightarrow> WaitlistEntry list \<times> DB" where
  "tryPromoteWaitlist collate db now clock sectorId date =
     promoteLoop collate db clock 0
       (sort_key w_createdAt (getWaitlistEntriesBySectorAndDate db now sectorId date))"

section \<open>Cancel, approve and reject (src/routes.ts)\<close>

text \<open>
  The test the routes run before they call \<open>findCandidates\<close> or \<open>createBooking\<close>:
  \<open>Some\<close> is the error thrown.
\<close>

definition assertWindowWithinService ::
  "int \<Rightarrow> int \<Rightarrow> hhmm option \<Rightarrow> hhmm option \<Rightarrow> (hhmm \<times> hhmm) list \<Rightarrow> Error option" where
  "assertWindowWithinService date timezone requestedStart requestedEnd windows =
     (case (requestedStart, requestedEnd) of
        (Some rs, Some re) \<Rightarrow>
          if windows = [] then None
          else
            let reqStart = toZonedIso date rs timezone; reqEnd = toZonedIso date re timezone;
                hasOverlap = (\<exists>w \<in> set windows.
                                reqStart < toZonedIso date (snd w) timezone \<and>
                                reqEnd > toZonedIso date (fst w) timezone)
            in if \<not> hasOverlap then Some outside_service_window else None
      | _ \<Rightarrow> None)"

definition cancelBooking ::
  "(string \<Rightarrow> string \<Rightarrow> int) \<Rightarrow> DB \<Rightarrow> int \<Rightarrow> (nat \<Rightarrow> Env) \<Rightarrow> string
     \<Rightarrow> (Error + WaitlistEntry list) \<times> DB" where
  "cancelBooking collate db now clock bookingId =
     (case getBooking db bookingId of
        None \<Rightarrow> (Inl not_found, db)
      | Some booking \<Rightarrow>
          (let (promoted, db1) = tryPromoteWaitlist collate (deleteBooking db bookingId) now clock
                                   (b_sectorId booking) (isoDate (b_start booking))
           in (Inr promoted, db1)))"

definition approveBooking :: "DB \<Rightarrow> int \<Rightarrow> string \<Rightarrow> (Error + Booking option) \<times> DB" where
  "approveBooking db now bookingId =
     (case getBooking db bookingId of
        None \<Rightarrow> (Inl not_found, db)
      | Some booking \<Rightarrow>
          if b_status booking \<noteq> PENDING then (Inl invalid_input, db)
          else let db1 = updateBooking db now bookingId (\<lambda>b. b\<lparr>b_status := CONFIRMED\<rparr>)
               in (Inr (getBooking db1 bookingId), db1))"

definition rejectBooking :: "DB \<Rightarrow> string \<Rightarrow> (Error + unit) \<times> DB" where
  "rejectBooking db bookingId =
     (case getBooking db bookingId of
        None \<Rightarrow> (Inl not_found, db)
      | Some booking \<Rightarrow>
          if b_status booking \<noteq> PENDING then (Inl invalid_input, db)
          else (Inr (), deleteBooking db bookingId))"

section \<open>Notions the properties are stated with\<close>

text \<open>A gap list frees an instant when one of its half-open gaps holds it.\<close>

definition freeAt :: "Gap list \<Rightarrow> int \<Rightarrow> bool" where
  "freeAt gaps t = (\<exists>g \<in> set gaps. g_start g \<le> t \<and> t < g_end g)"

definition sortedByStart :: "Gap list \<Rightarrow> bool" where
  "sortedByStart gaps = sorted (map g_start gaps)"

text \<open>
  A small venue for the worked runs: one sector with one table for 2 to 12, open from
  20:00 to 21:00 UTC, nothing booked.
\<close>

definition demoDB :: DB where
  "demoDB = \<lparr>restaurants = [\<lparr>r_id = ''R1'', r_timezone = 0, r_windows = [((20, 0), (21, 0))],
                             r_largeGroupThreshold = None\<rparr>],
             sectors = [\<lparr>s_id = ''S1'', s_restaurantId = ''R1''\<rparr>],
             tables = [\<lparr>t_id = ''T1'', t_sectorId = ''S1'', t_minSize = 2, t_maxSize = 12\<rparr>],
             bookings = [], idempotencyCache = [], blackouts = [], waitlist = []\<rparr>"

text \<open>Two CONFIRMED bookings that share a table and overlap (half-open intervals).\<close>

definition overlaps :: "Booking \<Rightarrow> Booking \<Rightarrow> bool" where
  "overlaps a b = (b_start a < b_end b \<and> b_end a > b_start b)"

definition doubleBooked :: "DB \<Rightarrow> bool" where
  "doubleBooked db =
     (\<exists>a \<in> set (bookings db). \<exists>b \<in> set (bookings db).
        b_id a \<noteq> b_id b \<and> b_status a = CONFIRMED \<and> b_status b = CONFIRMED \<and>
        (\<exists>tid \<in> set (b_tableIds a). tid \<in> set (b_tableIds b)) \<and> overlaps a b)"

definition demoEnvA :: Env where
  "demoEnvA = \<lparr>e_now = 1000, e_lockNow = 1001, e_bookingId = ''BK_A'', e_waitlistId = ''A''\<rparr>"

definition demoEnvB :: Env where
  "demoEnvB = \<lparr>e_now = 2000, e_lockNow = 2001, e_bookingId = ''BK_B'', e_waitlistId = ''B''\<rparr>"

text \<open>The same venue without service windows and with table T1 blacked out 10:00 to 11:00.\<close>

definition blackoutDB :: DB where
  "blackoutDB = demoDB\<lparr>
     restaurants := [\<lparr>r_id = ''R1'', r_timezone = 0, r_windows = [], r_largeGroupThreshold = None\<rparr>],
     blackouts := [\<lparr>bl_id = ''BL_1'', bl_tableId = ''T1'',
                    bl_start = 86400000 + 10 * 3600000, bl_end = 86400000 + 11 * 3600000\<rparr>]\<rparr>"

text \<open>The demo venue with its table taken from 20:00 to 21:00 on day 1.\<close>

definition bookedDB :: DB where
  "bookedDB = demoDB\<lparr>bookings :=
     [\<lparr>b_id = ''BK_0'', b_restaurantId = ''R1'', b_sectorId = ''S1'', b_tableIds = [''T1''],
       b_partySize = 4, b_start = 158400000, b_end = 162000000, b_durationMinutes = 60,
       b_status = CONFIRMED, b_createdAt = 500, b_updatedAt = 500\<rparr>]\<rparr>"

text \<open>
  The order of the strategy, in the spec's words: kind with single before combo, then the
  earlier start, then the smaller waste, then the text of the sorted table ids as the
  collation orders it. A collation is consistent when it is total and transitive.
\<close>

definition kindRank :: "Kind \<Rightarrow> nat" where
  "kindRank k = (case k of Single \<Rightarrow> 0 | Combo \<Rightarrow> 1)"

definition rankedBefore ::
  "(string \<Rightarrow> string \<Rightarrow> int) \<Rightarrow> int \<Rightarrow> Candidate \<Rightarrow> Candidate \<Rightarrow> bool" where
  "rankedBefore collate partySize a b =
     (kindRank (c_kind a) < kindRank (c_kind b) \<or>
      (kindRank (c_kind a) = kindRank (c_kind b) \<and>
       (c_start a < c_start b \<or>
        (c_start a = c_start b \<and>
         (c_maxCapacity a - partySize < c_maxCapacity b - partySize \<or>
          (c_maxCapacity a - partySize = c_maxCapacity b - partySize \<and>
           collate (join '','' (sort (c_tableIds a))) (join '','' (sort (c_tableIds b))) \<le> 0))))))"


text \<open>
  The collation by character code, for the worked runs: their table ids (T1, T2, T3) differ
  in a digit only, which the collations of the locales order as the character codes do.
\<close>

definition codeCollate :: "string \<Rightarrow> string \<Rightarrow> int" where
  "codeCollate a b = localeCompare a b"


text \<open>
  The time grid: the quarter hours of the clock, that is the multiples of 15 minutes counted
  from the epoch. Rounding to it, and the slots of a gap, in the spec's words: the start
  rounded up and the end rounded down to the grid, nothing if what is left is shorter than
  the duration, else one slot for each grid step that leaves room for the duration.
\<close>

definition wholeMinute :: "int \<Rightarrow> bool" where
  "wholeMinute t = (t mod 60000 = 0)"

definition onGrid :: "int \<Rightarrow> bool" where
  "onGrid t = (t mod (15 * 60 * 1000) = 0)"

definition gridUp :: "int \<Rightarrow> int" where
  "gridUp t = - ((- t) div (15 * 60 * 1000)) * (15 * 60 * 1000)"

definition gridDown :: "int \<Rightarrow> int" where
  "gridDown t = (t div (15 * 60 * 1000)) * (15 * 60 * 1000)"

definition specSlots :: "int \<Rightarrow> Gap \<Rightarrow> Gap list" where
  "specSlots durationMinutes gap =
     (let roundedStart = gridUp (g_start gap); roundedEnd = gridDown (g_end gap)
      in if roundedEnd - roundedStart < durationMinutes * 60 * 1000 then []
         else map (\<lambda>k. \<lparr>g_start = roundedStart + int k * (15 * 60 * 1000),
                          g_end = roundedStart + int k * (15 * 60 * 1000)
                                  + durationMinutes * 60 * 1000\<rparr>)
                  [0 ..< nat ((roundedEnd - roundedStart - durationMinutes * 60 * 1000)
                              div (15 * 60 * 1000) + 1)])"

definition wholeMinuteGaps :: "Gap list \<Rightarrow> bool" where
  "wholeMinuteGaps gaps = list_all (\<lambda>g. wholeMinute (g_start g) \<and> wholeMinute (g_end g)) gaps"

text \<open>Every booking and blackout of the store starts and ends on a whole minute.\<close>

definition wholeMinuteDB :: "DB \<Rightarrow> bool" where
  "wholeMinuteDB db =
     (list_all (\<lambda>b. wholeMinute (b_start b) \<and> wholeMinute (b_end b)) (bookings db) \<and>
      list_all (\<lambda>b. wholeMinute (bl_start b) \<and> wholeMinute (bl_end b)) (blackouts db))"

text \<open>The demo venue opening at 20:10 instead of 20:00.\<close>

definition offGridDB :: DB where
  "offGridDB = demoDB\<lparr>restaurants :=
     [\<lparr>r_id = ''R1'', r_timezone = 0, r_windows = [((20, 10), (21, 0))],
       r_largeGroupThreshold = None\<rparr>]\<rparr>"

text \<open>
  The booked demo venue with two queued entries for sector S1 and day 1: WL_BIG, created
  first, is a party of 20, for which the venue has no table; WL_SMALL is a party of 2. The
  clock of the replay stands after 6000.
\<close>

definition queueDB :: DB where
  "queueDB = bookedDB\<lparr>waitlist :=
     [\<lparr>w_id = ''WL_BIG'', w_restaurantId = ''R1'', w_sectorId = ''S1'', w_partySize = 20,
       w_durationMinutes = 60, w_date = 1, w_windowStart = None, w_windowEnd = None,
       w_createdAt = 100, w_expiresAt = 3600100\<rparr>,
      \<lparr>w_id = ''WL_SMALL'', w_restaurantId = ''R1'', w_sectorId = ''S1'', w_partySize = 2,
       w_durationMinutes = 60, w_date = 1, w_windowStart = None, w_windowEnd = None,
       w_createdAt = 200, w_expiresAt = 3600200\<rparr>]\<rparr>"

definition demoClock :: "nat \<Rightarrow> Env" where
  "demoClock i = \<lparr>e_now = 6000 + int i, e_lockNow = 6001 + int i,
                   e_bookingId = ''BK_N'', e_waitlistId = ''N''\<rparr>"

text \<open>
  A venue three hours behind UTC, open 20:00 to 23:45 local time, with one table for 2 to 4:
  its evening runs over the UTC midnight.
\<close>

definition lateDB :: DB where
  "lateDB = \<lparr>restaurants = [\<lparr>r_id = ''R1'', r_timezone = - 180,
                             r_windows = [((20, 0), (23, 45))], r_largeGroupThreshold = None\<rparr>],
             sectors = [\<lparr>s_id = ''S1'', s_restaurantId = ''R1''\<rparr>],
             tables = [\<lparr>t_id = ''T1'', t_sectorId = ''S1'', t_minSize = 2, t_maxSize = 4\<rparr>],
             bookings = [], idempotencyCache = [], blackouts = [], waitlist = []\<rparr>"

definition demoEnvC :: Env where
  "demoEnvC = \<lparr>e_now = 3000, e_lockNow = 3001, e_bookingId = ''BK_C'', e_waitlistId = ''C''\<rparr>"

text \<open>
  The venue behind UTC with its table booked for the local day 1 from 21:30 to 23:00, a
  booking of the engine's own making, and one queued party of 2 for that day.
\<close>

definition lateQueueDB :: DB where
  "lateQueueDB = lateDB\<lparr>
     bookings := [\<lparr>b_id = ''BK_L'', b_restaurantId = ''R1'', b_sectorId = ''S1'',
                   b_tableIds = [''T1''], b_partySize = 2, b_start = 174600000,
                   b_end = 180000000, b_durationMinutes = 90, b_status = CONFIRMED,
                   b_createdAt = 500, b_updatedAt = 500\<rparr>],
     waitlist := [\<lparr>w_id = ''WL_D1'', w_restaurantId = ''R1'', w_sectorId = ''S1'',
                   w_partySize = 2, w_durationMinutes = 90, w_date = 1,
                   w_windowStart = Some (21, 30), w_windowEnd = Some (23, 0),
                   w_createdAt = 100, w_expiresAt = 3600100\<rparr>]\<rparr>"

section \<open>The gap intersector\<close>

lemma freeAt_Nil [simp]: "freeAt [] t = False"
  by (simp add: freeAt_def)

lemma freeAt_Cons [simp]:
  "freeAt (g # gs) t = ((g_start g \<le> t \<and> t < g_end g) \<or> freeAt gs t)"
  by (simp add: freeAt_def)

lemma freeAt_append [simp]: "freeAt (xs @ ys) t = (freeAt xs t \<or> freeAt ys t)"
  by (auto simp: freeAt_def)

lemma sortedByStart_tail: "sortedByStart (g # gs) \<Longrightarrow> sortedByStart gs"
  by (simp add: sortedByStart_def)

lemma sortedByStart_head_le:
  "sortedByStart (g # gs) \<Longrightarrow> x \<in> set gs \<Longrightarrow> g_start g \<le> g_start x"
  by (auto simp: sortedByStart_def)

lemma intersectGaps_freeAt:
  "sortedByStart a \<Longrightarrow> sortedByStart b \<Longrightarrow>
   freeAt (intersectGaps a b) t = (freeAt a t \<and> freeAt b t)"
proof (induction a b rule: intersectGaps.induct)
  case (3 gap1 r1 gap2 r2)
  have s1: "sortedByStart r1" and s2: "sortedByStart r2"
    using "3.prems" by (auto dest: sortedByStart_tail)
  have lb1: "freeAt r1 t \<Longrightarrow> g_start gap1 \<le> t"
    using sortedByStart_head_le[OF "3.prems"(1)] by (fastforce simp: freeAt_def)
  have lb2: "freeAt r2 t \<Longrightarrow> g_start gap2 \<le> t"
    using sortedByStart_head_le[OF "3.prems"(2)] by (fastforce simp: freeAt_def)
  show ?case
  proof (cases "g_end gap1 < g_end gap2")
    case True
    have ih: "freeAt (intersectGaps r1 (gap2 # r2)) t = (freeAt r1 t \<and> freeAt (gap2 # r2) t)"
      using "3.IH"(1)[OF refl refl True s1 "3.prems"(2)] .
    show ?thesis using True lb1 lb2 by (simp add: ih Let_def) linarith
  next
    case False
    have ih: "freeAt (intersectGaps (gap1 # r1) r2) t = (freeAt (gap1 # r1) t \<and> freeAt r2 t)"
      using "3.IH"(2)[OF refl refl False "3.prems"(1) s2] .
    show ?thesis using False lb1 lb2 by (simp add: ih Let_def) linarith
  qed
qed simp_all

text \<open>Every emitted overlap starts no earlier than the two gaps under the cursors.\<close>

lemma intersectGaps_lower:
  "g \<in> set (intersectGaps (gap1 # r1) (gap2 # r2)) \<Longrightarrow>
   sortedByStart (gap1 # r1) \<Longrightarrow> sortedByStart (gap2 # r2) \<Longrightarrow>
   g_start gap1 \<le> g_start g \<and> g_start gap2 \<le> g_start g"
proof (induction "gap1 # r1" "gap2 # r2" arbitrary: gap1 r1 gap2 r2 rule: intersectGaps.induct)
  case (3 gap1 r1 gap2 r2)
  have s1: "sortedByStart r1" and s2: "sortedByStart r2"
    using "3.prems" by (auto dest: sortedByStart_tail)
  show ?case
  proof (cases "g_end gap1 < g_end gap2")
    case True
    show ?thesis
    proof (cases "g \<in> set (intersectGaps r1 (gap2 # r2))")
      case inrec: True
      then obtain h r1' where r1: "r1 = h # r1'" by (cases r1) auto
      have "g_start h \<le> g_start g \<and> g_start gap2 \<le> g_start g"
        using "3.hyps"(1)[OF refl refl True r1 inrec[unfolded r1] s1[unfolded r1] "3.prems"(3)] .
      moreover have "g_start gap1 \<le> g_start h"
        using sortedByStart_head_le[OF "3.prems"(2)] r1 by simp
      ultimately show ?thesis by simp
    next
      case False
      then show ?thesis using "3.prems"(1) True by (auto simp: Let_def split: if_splits)
    qed
  next
    case False
    show ?thesis
    proof (cases "g \<in> set (intersectGaps (gap1 # r1) r2)")
      case inrec: True
      then obtain h r2' where r2: "r2 = h # r2'" by (cases r2) auto
      have "g_start gap1 \<le> g_start g \<and> g_start h \<le> g_start g"
        using "3.hyps"(2)[OF refl refl False r2 inrec[unfolded r2] "3.prems"(2) s2[unfolded r2]] .
      moreover have "g_start gap2 \<le> g_start h"
        using sortedByStart_head_le[OF "3.prems"(3)] r2 by simp
      ultimately show ?thesis by simp
    next
      case notrec: False
      then show ?thesis using "3.prems"(1) False by (auto simp: Let_def split: if_splits)
    qed
  qed
qed

lemma intersectGaps_sorted:
  "sortedByStart a \<Longrightarrow> sortedByStart b \<Longrightarrow> sortedByStart (intersectGaps a b)"
proof (induction a b rule: intersectGaps.induct)
  case (3 gap1 r1 gap2 r2)
  have s1: "sortedByStart r1" and s2: "sortedByStart r2"
    using "3.prems" by (auto dest: sortedByStart_tail)
  show ?case
  proof (cases "g_end gap1 < g_end gap2")
    case True
    have ih: "sortedByStart (intersectGaps r1 (gap2 # r2))"
      using "3.IH"(1)[OF refl refl True s1 "3.prems"(2)] .
    have lb: "\<forall>g \<in> set (intersectGaps r1 (gap2 # r2)).
                g_start gap1 \<le> g_start g \<and> g_start gap2 \<le> g_start g"
    proof
      fix g assume g: "g \<in> set (intersectGaps r1 (gap2 # r2))"
      then obtain h r1' where r1: "r1 = h # r1'" by (cases r1) auto
      have "g_start h \<le> g_start g \<and> g_start gap2 \<le> g_start g"
        using intersectGaps_lower[OF g[unfolded r1] s1[unfolded r1] "3.prems"(2)] .
      moreover have "g_start gap1 \<le> g_start h"
        using sortedByStart_head_le[OF "3.prems"(1)] r1 by simp
      ultimately show "g_start gap1 \<le> g_start g \<and> g_start gap2 \<le> g_start g" by simp
    qed
    show ?thesis using True ih lb by (auto simp: sortedByStart_def Let_def sorted_append)
  next
    case False
    have ih: "sortedByStart (intersectGaps (gap1 # r1) r2)"
      using "3.IH"(2)[OF refl refl False "3.prems"(1) s2] .
    have lb: "\<forall>g \<in> set (intersectGaps (gap1 # r1) r2).
                g_start gap1 \<le> g_start g \<and> g_start gap2 \<le> g_start g"
    proof
      fix g assume g: "g \<in> set (intersectGaps (gap1 # r1) r2)"
      then obtain h r2' where r2: "r2 = h # r2'" by (cases r2) auto
      have "g_start gap1 \<le> g_start g \<and> g_start h \<le> g_start g"
        using intersectGaps_lower[OF g[unfolded r2] "3.prems"(1) s2[unfolded r2]] .
      moreover have "g_start gap2 \<le> g_start h"
        using sortedByStart_head_le[OF "3.prems"(2)] r2 by simp
      ultimately show "g_start gap1 \<le> g_start g \<and> g_start gap2 \<le> g_start g" by simp
    qed
    show ?thesis using False ih lb by (auto simp: sortedByStart_def Let_def sorted_append)
  qed
qed (simp_all add: sortedByStart_def)

lemma foldl_intersectGaps:
  "sortedByStart g \<Longrightarrow> \<forall>x \<in> set gs. sortedByStart x \<Longrightarrow>
   sortedByStart (foldl intersectGaps g gs) \<and>
   freeAt (foldl intersectGaps g gs) t = (freeAt g t \<and> (\<forall>x \<in> set gs. freeAt x t))"
proof (induction gs arbitrary: g)
  case Nil
  then show ?case by simp
next
  case (Cons a gs)
  have sa: "sortedByStart a" using Cons.prems by simp
  have s': "sortedByStart (intersectGaps g a)" using intersectGaps_sorted[OF Cons.prems(1) sa] .
  from Cons.IH[OF s'] Cons.prems(2)
  show ?case by (auto simp: intersectGaps_freeAt[OF Cons.prems(1) sa])
qed

text \<open>
  C8. For two gap lists sorted by start, the instants freed by the two-pointer merge are
  exactly those freed by both lists; folding the merge over further sorted lists, as
  \<open>findComboGaps\<close> does, frees exactly the instants that every list frees.
\<close>

theorem intersectGaps_exact:
  assumes "sortedByStart a" and "sortedByStart b" and "\<forall>x \<in> set gs. sortedByStart x"
  shows "freeAt (intersectGaps a b) t = (freeAt a t \<and> freeAt b t) \<and>
         freeAt (foldl intersectGaps a (b # gs)) t
           = (freeAt a t \<and> freeAt b t \<and> (\<forall>x \<in> set gs. freeAt x t))"
proof -
  have all: "\<forall>x \<in> set (b # gs). sortedByStart x" using assms by simp
  show ?thesis
    using intersectGaps_freeAt[OF assms(1,2), of t] foldl_intersectGaps[OF assms(1) all, of t]
    by simp
qed

theorem intersectGaps_exact_witness:
  "sortedByStart [\<lparr>g_start = 0, g_end = 10\<rparr>, \<lparr>g_start = 20, g_end = 30\<rparr>] \<and>
   sortedByStart [\<lparr>g_start = 5, g_end = 25\<rparr>] \<and>
   sortedByStart [\<lparr>g_start = 8, g_end = 22\<rparr>] \<and>
   intersectGaps [\<lparr>g_start = 0, g_end = 10\<rparr>, \<lparr>g_start = 20, g_end = 30\<rparr>]
                 [\<lparr>g_start = 5, g_end = 25\<rparr>]
     = [\<lparr>g_start = 5, g_end = 10\<rparr>, \<lparr>g_start = 20, g_end = 25\<rparr>] \<and>
   freeAt (foldl intersectGaps [\<lparr>g_start = 0, g_end = 10\<rparr>, \<lparr>g_start = 20, g_end = 30\<rparr>]
             ([\<lparr>g_start = 5, g_end = 25\<rparr>] # [[\<lparr>g_start = 8, g_end = 22\<rparr>]])) 21"
  using intersectGaps_exact[of "[\<lparr>g_start = 0, g_end = 10\<rparr>, \<lparr>g_start = 20, g_end = 30\<rparr>]"
          "[\<lparr>g_start = 5, g_end = 25\<rparr>]" "[[\<lparr>g_start = 8, g_end = 22\<rparr>]]" 21]
  by (simp add: sortedByStart_def)

section \<open>Candidates last the requested duration\<close>

declare slotsFrom.simps [simp del]

lemma slotsFrom_length:
  "g \<in> set (slotsFrom c d e) \<Longrightarrow> g_end g = g_start g + d * 60 * 1000"
proof (induction c d e rule: slotsFrom.induct)
  case (1 c d e)
  show ?case
  proof (cases "c + d * 60 * 1000 \<le> e")
    case True
    then have "g = \<lparr>g_start = c, g_end = c + d * 60 * 1000\<rparr>
               \<or> g \<in> set (slotsFrom (c + slotMinutes * 60 * 1000) d e)"
      using "1.prems" by (subst (asm) slotsFrom.simps) simp
    then show ?thesis using "1.IH"[OF True] by auto
  next
    case False
    then show ?thesis using "1.prems" by (subst (asm) slotsFrom.simps) simp
  qed
qed

lemma filterGapsByDuration_length:
  "g \<in> set (filterGapsByDuration gaps d) \<Longrightarrow> g_end g = g_start g + d * 60 * 1000"
  by (auto simp: filterGapsByDuration_def slotsOfGap_def Let_def
           dest: slotsFrom_length split: if_splits)

lemma set_insertBy [simp]: "set (insertBy cmp x xs) = insert x (set xs)"
  by (induction xs) auto

lemma set_sortBy [simp]: "set (sortBy cmp xs) = set xs"
  by (induction xs) (auto simp: sortBy_def)

lemma scoreCandidate_fields [simp]:
  "c_start (scoreCandidate p c) = c_start c"
  "c_end (scoreCandidate p c) = c_end c"
  "c_kind (scoreCandidate p c) = c_kind c"
  "c_tableIds (scoreCandidate p c) = c_tableIds c"
  "c_maxCapacity (scoreCandidate p c) = c_maxCapacity c"
  "c_minCapacity (scoreCandidate p c) = c_minCapacity c"
  by (simp_all add: scoreCandidate_def Let_def)

lemma clipToWindow_subset: "set (clipToWindow r gs) \<subseteq> set gs"
  by (auto simp: clipToWindow_def split: option.splits)

text \<open>Where a candidate's interval comes from.\<close>

lemma allCandidates_origin:
  assumes "c0 \<in> set (allCandidates db ts date p d aw tz requested)"
  shows "\<exists>g. c_start c0 = g_start g \<and> c_end c0 = g_end g \<and>
           ((\<exists>t. g \<in> set (filterGapsByDuration (findTableGaps db t date aw tz) d)) \<or>
            (\<exists>ids. g \<in> set (filterGapsByDuration (findComboGaps db ids date aw tz) d)))"
proof -
  from assms consider
    (single) t where "c0 \<in> set (singleCandidates db date p d aw tz requested t)"
  | (combo) ids where "c0 \<in> set (comboCandidates db ts date p d aw tz requested ids)"
    unfolding allCandidates_def by auto
  then show ?thesis
  proof cases
    case single
    then obtain g where "g \<in> set (clipToWindow requested
        (filterGapsByDuration (findTableGaps db (t_id t) date aw tz) d))"
      "c_start c0 = g_start g" "c_end c0 = g_end g"
      unfolding singleCandidates_def by (auto split: if_splits)
    then show ?thesis using clipToWindow_subset by blast
  next
    case combo
    then obtain g where "g \<in> set (clipToWindow requested
        (filterGapsByDuration (findComboGaps db ids date aw tz) d))"
      "c_start c0 = g_start g" "c_end c0 = g_end g"
      unfolding comboCandidates_def Let_def by (auto split: if_splits)
    then show ?thesis using clipToWindow_subset by blast
  qed
qed

lemma activeWindowsOf_subset: "set (activeWindowsOf date tz requested sw) \<subseteq> set sw"
  by (auto simp: activeWindowsOf_def split: option.splits)

lemma settleIds_fields [simp]:
  "c_start (settleIds p cs c) = c_start c"
  "c_end (settleIds p cs c) = c_end c"
  "c_kind (settleIds p cs c) = c_kind c"
  "c_maxCapacity (settleIds p cs c) = c_maxCapacity c"
  "c_minCapacity (settleIds p cs c) = c_minCapacity c"
  "c_score (settleIds p cs c) = c_score c"
  by (simp_all add: settleIds_def)

text \<open>A returned candidate is a scored candidate of the enumeration, its ids possibly sorted.\<close>

lemma findCandidates_scored:
  assumes "c \<in> set (findCandidates collate db sectorId date p d sw tz rws rwe limit)"
  shows "\<exists>c0 cs. c = settleIds p cs (scoreCandidate p c0) \<and>
           c0 \<in> set (allCandidates db (getTablesBySector db sectorId) date p d
                         (activeWindowsOf date tz (requestedRange date tz rws rwe) sw) tz
                         (requestedRange date tz rws rwe))"
proof -
  let ?cs = "map (scoreCandidate p)
          (allCandidates db (getTablesBySector db sectorId) date p d
             (activeWindowsOf date tz (requestedRange date tz rws rwe) sw) tz
             (requestedRange date tz rws rwe))"
  from assms have "c \<in> set (take limit (map (settleIds p ?cs)
                                (sortBy (compareCandidates collate p) ?cs)))"
    unfolding findCandidates_def Let_def by (simp split: if_splits)
  then have "c \<in> set (map (settleIds p ?cs) (sortBy (compareCandidates collate p) ?cs))"
    by (rule in_set_takeD)
  then show ?thesis by auto
qed

lemma findCandidates_origin:
  assumes "c \<in> set (findCandidates collate db sectorId date p d sw tz rws rwe limit)"
  shows "\<exists>aw g. set aw \<subseteq> set sw \<and> c_start c = g_start g \<and> c_end c = g_end g \<and>
           ((\<exists>t. g \<in> set (filterGapsByDuration (findTableGaps db t date aw tz) d)) \<or>
            (\<exists>ids. g \<in> set (filterGapsByDuration (findComboGaps db ids date aw tz) d)))"
proof -
  from findCandidates_scored[OF assms] obtain c0 cs where
    c: "c = settleIds p cs (scoreCandidate p c0)"
    and c0: "c0 \<in> set (allCandidates db (getTablesBySector db sectorId) date p d
                         (activeWindowsOf date tz (requestedRange date tz rws rwe) sw) tz
                         (requestedRange date tz rws rwe))"
    by blast
  have se: "c_start c = c_start c0" "c_end c = c_end c0" by (simp_all add: c)
  from allCandidates_origin[OF c0] activeWindowsOf_subset[of date tz _ sw] se
  show ?thesis by metis
qed

text \<open>
  C10. Every candidate of \<open>findCandidates\<close> lasts exactly the requested duration, because
  every slot the duration filter emits does, whatever the length of the gap it was cut from.
\<close>

theorem findCandidates_duration:
  "(\<forall>c \<in> set (findCandidates collate db sectorId date partySize durationMinutes serviceWindows tz
                  requestedWindowStart requestedWindowEnd limit).
      c_end c - c_start c = durationMinutes * 60 * 1000) \<and>
   (\<forall>g \<in> set (filterGapsByDuration gaps durationMinutes).
      g_end g - g_start g = durationMinutes * 60 * 1000)"
proof (intro conjI ballI)
  fix c assume "c \<in> set (findCandidates collate db sectorId date partySize durationMinutes serviceWindows
                  tz requestedWindowStart requestedWindowEnd limit)"
  from findCandidates_origin[OF this] obtain g gaps where
    "g \<in> set (filterGapsByDuration gaps durationMinutes)"
    "c_start c = g_start g" "c_end c = g_end g" by blast
  with filterGapsByDuration_length[of g gaps durationMinutes]
  show "c_end c - c_start c = durationMinutes * 60 * 1000" by simp
next
  fix g assume "g \<in> set (filterGapsByDuration gaps durationMinutes)"
  from filterGapsByDuration_length[OF this]
  show "g_end g - g_start g = durationMinutes * 60 * 1000" by simp
qed


theorem findCandidates_duration_witness:
  "map (\<lambda>c. (c_start c, c_end c))
       (findCandidates codeCollate demoDB ''S1'' 1 4 45 [((20, 0), (21, 0))] 0 None None 10)
     = [(158400000, 161100000), (159300000, 162000000)] \<and>
   (161100000 :: int) - 158400000 = 45 * 60 * 1000 \<and>
   (162000000 :: int) - 159300000 = 45 * 60 * 1000"
proof -
  have e: "map (\<lambda>c. (c_start c, c_end c))
             (findCandidates codeCollate demoDB ''S1'' 1 4 45 [((20, 0), (21, 0))] 0 None None 10)
           = [(158400000, 161100000), (159300000, 162000000)]"
    by code_simp
  have "\<forall>x \<in> set (map (\<lambda>c. (c_start c, c_end c))
             (findCandidates codeCollate demoDB ''S1'' 1 4 45 [((20, 0), (21, 0))] 0 None None 10)).
          snd x - fst x = 45 * 60 * 1000"
    using findCandidates_duration[of codeCollate demoDB "''S1''" 1 4 45 "[((20, 0), (21, 0))]" 0 None None 10]
    by simp
  then show ?thesis unfolding e by simp
qed

section \<open>Worked runs of the transaction\<close>

text \<open>
  C1. A party of 10 gets table T1 from 20:00 to 21:00 as a PENDING booking; a PENDING booking
  holds no capacity, so a party of 4 is CONFIRMED on the same table for the same hour;
  \<open>approveBooking\<close> then confirms the first without the overlap test of the commit, and
  the table carries two overlapping CONFIRMED bookings.
\<close>

theorem approveBooking_double_books:
  "(case createBooking codeCollate demoDB demoEnvA ''R1'' ''S1'' 10 60 (Wellformed 1) None None None of
      (r1, db1) \<Rightarrow>
        (case createBooking codeCollate db1 demoEnvB ''R1'' ''S1'' 4 60 (Wellformed 1) None None None of
           (r2, db2) \<Rightarrow>
             (case approveBooking db2 3000 ''BK_A'' of
                (r3, db3) \<Rightarrow>
                  (\<not> doubleBooked demoDB, \<not> doubleBooked db1, \<not> doubleBooked db2,
                   doubleBooked db3,
                   map (\<lambda>b. (b_id b, b_tableIds b, b_start b, b_end b, b_status b))
                       (bookings db2),
                   map (\<lambda>b. (b_id b, b_tableIds b, b_start b, b_end b, b_status b))
                       (bookings db3)))))
   = (True, True, True, True,
      [(''BK_A'', [''T1''], 158400000, 162000000, PENDING),
       (''BK_B'', [''T1''], 158400000, 162000000, CONFIRMED)],
      [(''BK_A'', [''T1''], 158400000, 162000000, CONFIRMED),
       (''BK_B'', [''T1''], 158400000, 162000000, CONFIRMED)])"
  by code_simp

text \<open>
  A second way to the same state, by creation alone. Three parties of 2 ask for 90 minutes on
  day 1 at the venue three hours behind UTC. The first is seated 20:00 to 21:30 local time,
  the second 21:30 to 23:00, which starts on day 2 of UTC. \<open>getBookingsByTablesAndDate\<close>
  keeps the bookings whose start string begins with the requested date, so the second booking
  is seen neither by the gap search nor by the re-check inside the lock, and the third party
  is confirmed on the same table for the same 21:30 to 23:00.
\<close>

lemma createBooking_double_books_after_utc_midnight:
  "(case createBooking codeCollate lateDB demoEnvA ''R1'' ''S1'' 2 90 (Wellformed 1) None None None of
      (r1, db1) \<Rightarrow>
        (case createBooking codeCollate db1 demoEnvB ''R1'' ''S1'' 2 90 (Wellformed 1) None None None of
           (r2, db2) \<Rightarrow>
             (case createBooking codeCollate db2 demoEnvC ''R1'' ''S1'' 2 90 (Wellformed 1) None None None of
                (r3, db3) \<Rightarrow>
                  (doubleBooked db2, doubleBooked db3,
                   map (\<lambda>b. (b_id b, b_tableIds b, b_start b, b_end b, b_status b,
                             isoDate (b_start b)))
                       (bookings db3)))))
   = (False, True,
      [(''BK_A'', [''T1''], 169200000, 174600000, CONFIRMED, 1),
       (''BK_B'', [''T1''], 174600000, 180000000, CONFIRMED, 2),
       (''BK_C'', [''T1''], 174600000, 180000000, CONFIRMED, 2)])"
  by code_simp

text \<open>
  C2. The venue is open 20:00 to 21:00 and the request asks for 17:00 to 19:00: no service
  window meets it, \<open>findCandidates\<close> returns nothing, and \<open>createBooking\<close> takes the
  waitlist path before it reaches its service-window test: it returns a PENDING placeholder
  and queues an entry. The test of the routes, run on the same request, throws
  \<open>outside_service_window\<close>.
\<close>

theorem createBooking_outside_window_queues:
  "activeWindowsOf 1 0 (requestedRange 1 0 (Some (17, 0)) (Some (19, 0))) [((20, 0), (21, 0))] = []
   \<and> assertWindowWithinService 1 0 (Some (17, 0)) (Some (19, 0)) [((20, 0), (21, 0))]
       = Some outside_service_window
   \<and> (case createBooking codeCollate demoDB demoEnvA ''R1'' ''S1'' 4 60 (Wellformed 1) None
              (Some (Wellformed (17, 0))) (Some (Wellformed (19, 0))) of
        (r, db1) \<Rightarrow>
          (map_sum id (\<lambda>b. (b_id b, b_tableIds b, b_status b)) r,
           map b_id (bookings db1), map w_id (waitlist db1)))
     = (Inr (''BK_A'', [], PENDING), [''BK_A''], [''WL_A''])"
  by code_simp

text \<open>
  C3. Without service windows \<open>findTableGaps\<close> returns the day as one gap and leaves before
  the blackout filter: the blacked-out hour 10:00 to 11:00 is reported free. With a service
  window over the same day the blackout is cut out, as \<open>findComboGaps\<close> also does.
\<close>

theorem findTableGaps_no_windows_keeps_blackout:
  "findTableGaps blackoutDB ''T1'' 1 [] 0 = [\<lparr>g_start = 86400000, g_end = 172740000\<rparr>] \<and>
   freeAt (findTableGaps blackoutDB ''T1'' 1 [] 0) (86400000 + 10 * 3600000 + 1800000) \<and>
   findTableGaps blackoutDB ''T1'' 1 [((0, 0), (23, 59))] 0
     = [\<lparr>g_start = 86400000, g_end = 122400000\<rparr>, \<lparr>g_start = 126000000, g_end = 172740000\<rparr>]"
  by code_simp

text \<open>
  C7. Two calls with the same idempotency key and the same payload, one second apart. At the
  booked venue nothing fits: each call takes the waitlist path, which returns its placeholder
  without storing it under the key, so the calls return two bookings, BK_A and BK_B, and the
  store holds both and no result for the key. At the free venue the first call commits and
  stores its booking under the key, and the second call returns it: one record.
\<close>

theorem createBooking_same_key_two_placeholders:
  "(case createBooking codeCollate bookedDB demoEnvA ''R1'' ''S1'' 4 60 (Wellformed 1)
           (Some ''key-1'') None None of
      (r1, db1) \<Rightarrow>
        (case createBooking codeCollate db1 demoEnvB ''R1'' ''S1'' 4 60 (Wellformed 1)
                (Some ''key-1'') None None of
           (r2, db2) \<Rightarrow>
             (map_sum id b_id r1, map_sum id b_id r2,
              map (\<lambda>b. (b_id b, b_status b)) (bookings db2),
              map fst (idempotencyCache db2))))
   = (Inr ''BK_A'', Inr ''BK_B'',
      [(''BK_0'', CONFIRMED), (''BK_A'', PENDING), (''BK_B'', PENDING)], [])
   \<and>
   (case createBooking codeCollate demoDB demoEnvA ''R1'' ''S1'' 4 60 (Wellformed 1)
           (Some ''key-1'') None None of
      (r1, db1) \<Rightarrow>
        (case createBooking codeCollate db1 demoEnvB ''R1'' ''S1'' 4 60 (Wellformed 1)
                (Some ''key-1'') None None of
           (r2, db2) \<Rightarrow>
             (map_sum id b_id r1, map_sum id b_id r2,
              map (\<lambda>b. (b_id b, b_status b)) (bookings db2),
              map fst (idempotencyCache db2))))
   = (Inr ''BK_A'', Inr ''BK_A'', [(''BK_A'', CONFIRMED)], [''key-1''])"
  by code_simp

text \<open>
  C4. The booking BK_0 is cancelled and frees table T1 for 2 to 12. The replay takes WL_BIG
  first, a party of 20 that no table seats: its Booking Transaction finds no candidate and
  returns a placeholder, which the loop takes for a success. WL_BIG is removed as promoted
  with a PENDING booking without a table and a new entry WL_N in its place, the loop stops,
  and WL_SMALL, a party of 2 that the freed table seats (its transaction, run on the same
  store, is CONFIRMED on T1), is not tried.
\<close>

theorem cancelBooking_promotes_without_capacity:
  "(case cancelBooking codeCollate queueDB 4000 demoClock ''BK_0'' of
      (r, db1) \<Rightarrow>
        (map_sum id (map w_id) r,
         map (\<lambda>b. (b_id b, b_tableIds b, b_status b)) (bookings db1),
         map (\<lambda>w. (w_id w, w_partySize w)) (waitlist db1)))
   = (Inr [''WL_BIG''], [(''BK_N'', [], PENDING)], [(''WL_SMALL'', 2), (''WL_N'', 20)])
   \<and>
   map_sum id (\<lambda>b. (b_tableIds b, b_start b, b_end b, b_status b))
     (fst (replayEntry codeCollate (deleteBooking queueDB ''BK_0'') (demoClock 1)
             (waitlist queueDB ! 1)))
   = Inr ([''T1''], 158400000, 162000000, CONFIRMED)"
  by code_simp

text \<open>
  The day of the replay. At the venue three hours behind UTC the booking BK_L holds T1 for
  the local day 1 from 21:30, which is 00:30 of day 2 in UTC. Cancelling it replays the
  queue of the day its start string begins with, day 2: nothing is promoted and the entry
  WL_D1 queued for day 1 stays, though its transaction, run on the same store, is
  CONFIRMED on the freed table.
\<close>

lemma cancelBooking_replays_utc_day:
  "isoDate 174600000 = 2 \<and>
   (case cancelBooking codeCollate lateQueueDB 4000 demoClock ''BK_L'' of
      (r, db1) \<Rightarrow> (map_sum id (map w_id) r, map b_id (bookings db1), map w_id (waitlist db1)))
   = (Inr [], [], [''WL_D1''])
   \<and>
   map_sum id (\<lambda>b. (b_tableIds b, b_start b, b_end b, b_status b))
     (fst (replayEntry codeCollate (deleteBooking lateQueueDB ''BK_L'') (demoClock 0)
             (hd (waitlist lateQueueDB))))
   = Inr ([''T1''], 174600000, 180000000, CONFIRMED)"
  by code_simp

section \<open>Failures write no booking\<close>

lemma getIdempotency_bookings [simp]:
  "bookings (snd (getIdempotency db now k)) = bookings db"
  by (simp add: getIdempotency_def split: option.splits prod.splits)

lemma lookupIdempotency_bookings [simp]:
  "bookings (snd (lookupIdempotency db now key)) = bookings db"
  by (simp add: lookupIdempotency_def split: option.splits)

lemma lookupIdempotency_bookings':
  "lookupIdempotency db now key = (r, db1) \<Longrightarrow> bookings db1 = bookings db"
  using lookupIdempotency_bookings[of db now key] by simp

lemma createBookingLocked_error:
  assumes "createBookingLocked db env restaurant rid sid p d date key cand = (Inl e, db')"
  shows "bookings db' = bookings db \<and> e = no_capacity"
proof (cases "lookupIdempotency db (e_lockNow env) key")
  case (Pair ex db1)
  have b: "bookings db1 = bookings db" using lookupIdempotency_bookings'[OF Pair] .
  show ?thesis
  proof (cases ex)
    case (Some existing)
    with assms Pair show ?thesis by (simp add: createBookingLocked_def)
  next
    case None
    with assms Pair b show ?thesis
      by (simp add: createBookingLocked_def Let_def split: if_splits)
  qed
qed

lemma enqueuePending_ok:
  "\<exists>b db'. enqueuePending db env restaurant rid sid p d date rws rwe = (Inr b, db')"
  by (simp add: enqueuePending_def Let_def split: prod.splits)

text \<open>
  C9. A call of \<open>createBooking\<close> that ends in one of its failure conditions leaves the
  booking store as it found it: the two writes of a booking (the commit and the waitlist
  placeholder) are on paths that return a booking.
\<close>

theorem createBooking_error_keeps_bookings:
  assumes "createBooking collate db env restaurantId sectorId partySize durationMinutes date
             idempotencyKey requestedWindowStart requestedWindowEnd = (Inl e, db')"
  shows "bookings db' = bookings db"
proof (cases "lookupIdempotency db (e_now env) idempotencyKey")
  case (Pair ex db1)
  have b: "bookings db1 = bookings db" using lookupIdempotency_bookings'[OF Pair] .
  have enq: "\<And>restaurant day rws rwe.
     enqueuePending db1 env restaurant restaurantId sectorId partySize durationMinutes day rws rwe
       \<noteq> (Inl e, db')"
    using enqueuePending_ok by (metis Inl_Inr_False prod.inject)
  have lock: "\<And>restaurant day cand.
     createBookingLocked db1 env restaurant restaurantId sectorId partySize durationMinutes day
       idempotencyKey cand = (Inl e, db') \<Longrightarrow> bookings db' = bookings db"
    using createBookingLocked_error b by metis
  from assms have "createBooking collate db env restaurantId sectorId partySize durationMinutes date
             idempotencyKey requestedWindowStart requestedWindowEnd = (Inl e, db')" .
  then show ?thesis
    unfolding createBooking_def Let_def Pair using b
    by (auto split: if_splits Parsed.splits option.splits prod.splits simp: enq
             dest: createBookingLocked_error)
qed


theorem createBooking_error_keeps_bookings_witness:
  "createBooking codeCollate bookedDB demoEnvB ''R9'' ''S1'' 4 60 (Wellformed 1) None None None
     = (Inl not_found, bookedDB) \<and>
   createBooking codeCollate bookedDB demoEnvB ''R1'' ''S1'' 0 60 (Wellformed 1) None None None
     = (Inl invalid_input, bookedDB) \<and>
   fst (createBooking codeCollate demoDB demoEnvB ''R1'' ''S1'' 4 60 (Wellformed 1) None
          (Some (Wellformed (20, 0))) (Some (Wellformed (22, 0)))) = Inl outside_service_window \<and>
   bookings (snd (createBooking codeCollate demoDB demoEnvB ''R1'' ''S1'' 4 60 (Wellformed 1) None
          (Some (Wellformed (20, 0))) (Some (Wellformed (22, 0))))) = bookings demoDB \<and>
   map b_id (bookings bookedDB) = [''BK_0'']"
proof -
  have e1: "createBooking codeCollate bookedDB demoEnvB ''R9'' ''S1'' 4 60 (Wellformed 1) None None None
              = (Inl not_found, bookedDB)"
    by code_simp
  have e2: "createBooking codeCollate bookedDB demoEnvB ''R1'' ''S1'' 0 60 (Wellformed 1) None None None
              = (Inl invalid_input, bookedDB)"
    by code_simp
  have e3: "fst (createBooking codeCollate demoDB demoEnvB ''R1'' ''S1'' 4 60 (Wellformed 1) None
              (Some (Wellformed (20, 0))) (Some (Wellformed (22, 0)))) = Inl outside_service_window"
    by code_simp
  have e3': "createBooking codeCollate demoDB demoEnvB ''R1'' ''S1'' 4 60 (Wellformed 1) None
              (Some (Wellformed (20, 0))) (Some (Wellformed (22, 0)))
             = (Inl outside_service_window,
                snd (createBooking codeCollate demoDB demoEnvB ''R1'' ''S1'' 4 60 (Wellformed 1) None
                       (Some (Wellformed (20, 0))) (Some (Wellformed (22, 0)))))"
    using e3 by (simp add: prod_eq_iff)
  have ids: "map b_id (bookings bookedDB) = [''BK_0'']" by code_simp
  from e1 e2 e3 createBooking_error_keeps_bookings[OF e3'] ids show ?thesis by simp
qed

section \<open>The order of the candidates\<close>







text \<open>Sorting the ids of a candidate in place does not move it in the order.\<close>

lemma rankedBefore_settleIds [simp]:
  "rankedBefore collate p (settleIds p cs a) (settleIds p cs' b) = rankedBefore collate p a b"
proof -
  have "sort (c_tableIds (settleIds p cs x)) = sort (c_tableIds x)" for cs x
    by (simp add: settleIds_def sorted_sort_id)
  then show ?thesis by (simp add: rankedBefore_def)
qed







section \<open>The time grid\<close>

lemma wholeMinute_decompose:
  assumes "wholeMinute t"
  obtains q r where "t = q * 900000 + r * 60000" "0 \<le> r" "r < 15"
    "getMinutes t mod slotMinutes = r" "t div 60000 = 15 * q + r"
proof -
  define m where "m = t div 60000"
  define q where "q = m div 15"
  define r where "r = m mod 15"
  have t: "t = m * 60000" using assms by (auto simp: wholeMinute_def m_def)
  have m: "m = 15 * q + r" by (simp add: q_def r_def)
  have r: "0 \<le> r" "r < 15" by (simp_all add: r_def)
  have "(m mod 60) mod 15 = m mod 15" by (simp add: mod_mod_cancel)
  then have g: "getMinutes t mod slotMinutes = r"
    by (simp add: getMinutes_def slotMinutes_def m_def r_def)
  have "t = q * 900000 + r * 60000" unfolding t m by simp
  then show ?thesis using that[of q r] g r m m_def by simp
qed

lemma onGrid_iff: "onGrid t = (\<exists>q. t = q * 900000)"
  by (auto simp: onGrid_def)

lemma roundToSlot_Up:
  assumes "wholeMinute t"
  shows "roundToSlot t Up = gridUp t"
proof -
  from assms obtain q r where t: "t = q * 900000 + r * 60000" and r: "0 \<le> r" "r < 15"
    and g: "getMinutes t mod slotMinutes = r" and m: "t div 60000 = 15 * q + r"
    by (rule wholeMinute_decompose)
  show ?thesis
  proof (cases "r = 0")
    case True
    then have "gridUp t = t" using t by (simp add: gridUp_def)
    moreover have "roundToSlot t Up = t" using g True by (simp add: roundToSlot_def Let_def)
    ultimately show ?thesis by simp
  next
    case False
    have "- t = (- q - 1) * 900000 + (15 - r) * 60000" using t by simp
    moreover have "0 \<le> (15 - r) * 60000" "(15 - r) * 60000 < 900000" using r False by auto
    ultimately have "(- t) div 900000 = - q - 1"
      by (metis add.commute div_mult_self1 div_pos_pos_trivial add_0 zero_neq_numeral)
    then have up: "gridUp t = (q + 1) * 900000" by (simp add: gridUp_def)
    have "roundToSlot t Up = (15 * q + r - getMinutes t + (getMinutes t + (15 - r))) * 60000"
      using g False m by (simp add: roundToSlot_def Let_def slotMinutes_def)
    then show ?thesis using up by simp
  qed
qed

lemma roundToSlot_Down:
  assumes "wholeMinute t"
  shows "roundToSlot t Down = gridDown t"
proof -
  from assms obtain q r where t: "t = q * 900000 + r * 60000" and r: "0 \<le> r" "r < 15"
    and g: "getMinutes t mod slotMinutes = r" and m: "t div 60000 = 15 * q + r"
    by (rule wholeMinute_decompose)
  have "0 \<le> r * 60000" "r * 60000 < 900000" using r by auto
  then have "t div 900000 = q" unfolding t
    by (metis add.commute div_mult_self1 div_pos_pos_trivial add_0 zero_neq_numeral)
  then have down: "gridDown t = q * 900000" by (simp add: gridDown_def)
  show ?thesis
  proof (cases "r = 0")
    case True
    then show ?thesis using g t down by (simp add: roundToSlot_def Let_def)
  next
    case False
    have "roundToSlot t Down = (15 * q + r - getMinutes t + (getMinutes t - r)) * 60000"
      using g False m by (simp add: roundToSlot_def Let_def slotMinutes_def)
    then show ?thesis using down by simp
  qed
qed

lemma onGrid_gridUp [simp]: "onGrid (gridUp t)"
  by (simp add: onGrid_def gridUp_def)

lemma onGrid_gridDown [simp]: "onGrid (gridDown t)"
  by (simp add: onGrid_def gridDown_def)


lemma slotsFrom_map:
  "slotsFrom s d e =
     map (\<lambda>k. \<lparr>g_start = s + int k * (15 * 60 * 1000),
                  g_end = s + int k * (15 * 60 * 1000) + d * 60 * 1000\<rparr>)
         [0 ..< nat ((e - s - d * 60 * 1000) div (15 * 60 * 1000) + 1)]"
proof (induction s d e rule: slotsFrom.induct)
  case (1 s d e)
  show ?case
  proof (cases "s + d * 60 * 1000 \<le> e")
    case True
    define x where "x = e - s - d * 60 * 1000"
    have x: "0 \<le> x" using True by (simp add: x_def)
    have "(x - 900000) div 900000 = x div 900000 - 1"
      using div_add_self2[of 900000 "x - 900000"] by simp
    then have n: "nat (x div 900000 + 1) = Suc (nat ((x - 900000) div 900000 + 1))"
      using x by (simp add: pos_imp_zdiv_nonneg_iff Suc_nat_eq_nat_zadd1)
    have x': "e - (s + slotMinutes * 60 * 1000) - d * 60 * 1000 = x - 900000"
      by (simp add: x_def slotMinutes_def)
    have ih: "slotsFrom (s + slotMinutes * 60 * 1000) d e =
       map (\<lambda>k. \<lparr>g_start = s + slotMinutes * 60 * 1000 + int k * (15 * 60 * 1000),
                  g_end = s + slotMinutes * 60 * 1000 + int k * (15 * 60 * 1000) + d * 60 * 1000\<rparr>)
         [0 ..< nat ((x - 900000) div 900000 + 1)]"
      using "1.IH"[OF True] x' by simp
    have "slotsFrom s d e = \<lparr>g_start = s, g_end = s + d * 60 * 1000\<rparr>
            # slotsFrom (s + slotMinutes * 60 * 1000) d e"
      using True by (subst slotsFrom.simps) simp
    also have "\<dots> = map (\<lambda>k. \<lparr>g_start = s + int k * (15 * 60 * 1000),
                  g_end = s + int k * (15 * 60 * 1000) + d * 60 * 1000\<rparr>)
         [0 ..< Suc (nat ((x - 900000) div 900000 + 1))]"
      unfolding ih
      by (simp add: upt_conv_Cons map_Suc_upt[symmetric] slotMinutes_def algebra_simps
               del: upt_Suc)
    finally show ?thesis using n by (simp add: x_def)
  next
    case False
    then have "(e - s - d * 60 * 1000) div 900000 < 0"
      by (simp add: div_neg_pos_less0)
    then have "nat ((e - s - d * 60 * 1000) div (15 * 60 * 1000) + 1) = 0" by simp
    moreover have "slotsFrom s d e = []" using False by (subst slotsFrom.simps) simp
    ultimately show ?thesis by simp
  qed
qed

lemma slotsOfGap_spec:
  assumes "wholeMinute (g_start gap)" and "wholeMinute (g_end gap)"
  shows "slotsOfGap d gap = specSlots d gap"
  unfolding slotsOfGap_def specSlots_def
  by (simp add: roundToSlot_Up[OF assms(1)] roundToSlot_Down[OF assms(2)] slotsFrom_map Let_def
                not_le[symmetric])

lemma onGrid_add: "onGrid a \<Longrightarrow> onGrid (a + int k * 900000)"
  by (simp add: onGrid_def)

lemma onGrid_duration:
  assumes "onGrid a" and "d mod 15 = 0"
  shows "onGrid (a + d * 60000)"
proof -
  from assms(2) obtain j where "d = j * 15" by (auto simp: mod_eq_0_iff_dvd)
  then have "a + d * 60000 = a + j * 900000" by simp
  with assms(1) show ?thesis by (simp add: onGrid_def)
qed

lemma specSlots_onGrid:
  assumes "g \<in> set (specSlots d gap)" and "d mod 15 = 0"
  shows "onGrid (g_start g) \<and> onGrid (g_end g)"
proof -
  from assms(1) obtain k where
    g: "g = \<lparr>g_start = gridUp (g_start gap) + int k * (15 * 60 * 1000),
              g_end = gridUp (g_start gap) + int k * (15 * 60 * 1000) + d * 60 * 1000\<rparr>"
    by (auto simp: specSlots_def Let_def split: if_splits)
  have s: "onGrid (gridUp (g_start gap) + int k * 900000)" by (rule onGrid_add) simp
  have e: "onGrid (gridUp (g_start gap) + int k * 900000 + d * 60000)"
    by (rule onGrid_duration[OF s assms(2)])
  have "g_start g = gridUp (g_start gap) + int k * 900000"
       "g_end g = gridUp (g_start gap) + int k * 900000 + d * 60000"
    by (simp_all add: g)
  with s e show ?thesis by simp
qed


lemma wholeMinute_toZonedIso [simp]: "wholeMinute (toZonedIso date time tz)"
proof -
  have "toZonedIso date time tz
          = (date * 1440 + (int (fst time) * 60 + int (snd time)) - tz) * 60000"
    by (simp add: toZonedIso_def algebra_simps)
  then show ?thesis by (simp add: wholeMinute_def)
qed

lemma wholeMinuteGaps_simps [simp]:
  "wholeMinuteGaps []"
  "wholeMinuteGaps (g # gs) = (wholeMinute (g_start g) \<and> wholeMinute (g_end g) \<and> wholeMinuteGaps gs)"
  "wholeMinuteGaps (xs @ ys) = (wholeMinuteGaps xs \<and> wholeMinuteGaps ys)"
  by (simp_all add: wholeMinuteGaps_def)

lemma wholeMinuteGaps_concat:
  "(\<And>x. x \<in> set xss \<Longrightarrow> wholeMinuteGaps x) \<Longrightarrow> wholeMinuteGaps (concat xss)"
  by (induction xss) auto

lemma wholeMinuteGaps_mem:
  "wholeMinuteGaps gs \<Longrightarrow> g \<in> set gs \<Longrightarrow> wholeMinute (g_start g) \<and> wholeMinute (g_end g)"
  by (simp add: wholeMinuteGaps_def list_all_iff)

lemma sweepBookings_wholeMinute:
  "wholeMinute cur \<Longrightarrow> wholeMinute winEnd \<Longrightarrow>
   \<forall>b \<in> set bs. wholeMinute (b_start b) \<and> wholeMinute (b_end b) \<Longrightarrow>
   wholeMinuteGaps (sweepBookings cur bs winEnd)"
  by (induction bs arbitrary: cur) auto

lemma findGapsInWindow_wholeMinute:
  "wholeMinute ws \<Longrightarrow> wholeMinute we \<Longrightarrow>
   \<forall>b \<in> set bs. wholeMinute (b_start b) \<and> wholeMinute (b_end b) \<Longrightarrow>
   wholeMinuteGaps (findGapsInWindow bs ws we)"
  unfolding findGapsInWindow_def by (rule sweepBookings_wholeMinute) auto

lemma splitAround_wholeMinute:
  "wholeMinute cur \<Longrightarrow> wholeMinute gapEnd \<Longrightarrow>
   \<forall>b \<in> set bs. wholeMinute (bl_start b) \<and> wholeMinute (bl_end b) \<Longrightarrow>
   wholeMinuteGaps (splitAround cur bs gapEnd)"
  by (induction bs arbitrary: cur) (auto simp: max_def)

lemma filterGapsByBlackouts_wholeMinute:
  assumes "wholeMinuteDB db" and "wholeMinuteGaps gaps"
  shows "wholeMinuteGaps (filterGapsByBlackouts db gaps ids)"
proof -
  have bl: "\<forall>b \<in> set (getBlackoutsByTables db ids). wholeMinute (bl_start b) \<and> wholeMinute (bl_end b)"
    using assms(1) by (auto simp: wholeMinuteDB_def getBlackoutsByTables_def list_all_iff)
  have "wholeMinuteGaps (filterGap (getBlackoutsByTables db ids) g)" if "g \<in> set gaps" for g
  proof -
    from wholeMinuteGaps_mem[OF assms(2) that]
    have g: "wholeMinute (g_start g)" "wholeMinute (g_end g)" by simp_all
    show ?thesis
      unfolding filterGap_def Let_def
      using g bl by (auto intro!: splitAround_wholeMinute)
  qed
  then show ?thesis
    unfolding filterGapsByBlackouts_def Let_def
    using assms(2) by (auto intro!: wholeMinuteGaps_concat)
qed

lemma findTableGaps_wholeMinute:
  assumes "wholeMinuteDB db"
  shows "wholeMinuteGaps (findTableGaps db tid date sw tz)"
proof -
  have bs: "\<forall>b \<in> set (getBookingsByTablesAndDate db [tid] date).
              wholeMinute (b_start b) \<and> wholeMinute (b_end b)"
    using assms by (auto simp: wholeMinuteDB_def getBookingsByTablesAndDate_def list_all_iff)
  show ?thesis
    unfolding findTableGaps_def Let_def
    using bs assms
    by (auto intro!: filterGapsByBlackouts_wholeMinute wholeMinuteGaps_concat
                     findGapsInWindow_wholeMinute)
qed

lemma intersectGaps_wholeMinute:
  "wholeMinuteGaps a \<Longrightarrow> wholeMinuteGaps b \<Longrightarrow> wholeMinuteGaps (intersectGaps a b)"
  by (induction a b rule: intersectGaps.induct) (auto simp: Let_def)

lemma foldl_intersectGaps_wholeMinute:
  "wholeMinuteGaps g \<Longrightarrow> \<forall>x \<in> set gs. wholeMinuteGaps x \<Longrightarrow>
   wholeMinuteGaps (foldl intersectGaps g gs)"
  by (induction gs arbitrary: g) (auto simp: intersectGaps_wholeMinute)

lemma findComboGaps_wholeMinute:
  assumes "wholeMinuteDB db"
  shows "wholeMinuteGaps (findComboGaps db ids date sw tz)"
proof (cases ids)
  case Nil
  then show ?thesis by (simp add: findComboGaps_def)
next
  case (Cons t ts)
  show ?thesis
  proof (cases ts)
    case Nil
    with Cons show ?thesis by (simp add: findComboGaps_def findTableGaps_wholeMinute[OF assms])
  next
    case (Cons u us)
    have "wholeMinuteGaps (foldl intersectGaps (findTableGaps db t date sw tz)
            (map (\<lambda>tableId. findTableGaps db tableId date sw tz) (u # us)))"
      by (rule foldl_intersectGaps_wholeMinute) (auto simp: findTableGaps_wholeMinute[OF assms])
    then show ?thesis
      using \<open>ids = t # ts\<close> Cons
      by (simp add: findComboGaps_def filterGapsByBlackouts_wholeMinute[OF assms])
  qed
qed

lemma filterGapsByDuration_onGrid:
  assumes "wholeMinuteGaps gaps" and "d mod 15 = 0" and "g \<in> set (filterGapsByDuration gaps d)"
  shows "onGrid (g_start g) \<and> onGrid (g_end g)"
proof -
  from assms(3) obtain gap where gap: "gap \<in> set gaps" and g: "g \<in> set (slotsOfGap d gap)"
    by (auto simp: filterGapsByDuration_def)
  from wholeMinuteGaps_mem[OF assms(1) gap]
  have "slotsOfGap d gap = specSlots d gap" by (simp add: slotsOfGap_spec)
  with g specSlots_onGrid[OF _ assms(2)] show ?thesis by simp
qed

text \<open>
  C5, as the code has it. The grid is that of the clock, not one counted from the window's
  start: a venue opening at 20:10 is offered 20:15, five minutes after its window starts.
\<close>

theorem findCandidates_off_window_grid:
  "map c_start (findCandidates codeCollate offGridDB ''S1'' 1 4 15 [((20, 10), (21, 0))] 0 None None 2)
     = [159300000, 160200000] \<and>
   map c_end (findCandidates codeCollate offGridDB ''S1'' 1 4 15 [((20, 10), (21, 0))] 0 None None 2)
     = [160200000, 161100000] \<and>
   toZonedIso 1 (20, 10) 0 = 159000000 \<and>
   (159300000 - toZonedIso 1 (20, 10) 0) mod (15 * 60 * 1000) = 5 * 60 * 1000 \<and>
   (160200000 - toZonedIso 1 (20, 10) 0) mod (15 * 60 * 1000) = 5 * 60 * 1000"
  by code_simp

text \<open>
  C5, in the form that holds. When every booking and blackout of the store is on a whole minute and the
  duration is a multiple of 15, every candidate starts and ends on a quarter hour of the
  clock, hence at a multiple of 15 minutes from each service window that itself starts on a
  quarter hour. For a gap with whole-minute bounds the duration filter rounds the start up
  and the end down to the grid, drops the gap when what is left is shorter than the
  duration, and otherwise emits one slot per grid step that leaves room for the duration.
\<close>

theorem findCandidates_on_grid:
  assumes "wholeMinuteDB db" and "durationMinutes mod 15 = 0"
  shows "(\<forall>c \<in> set (findCandidates collate db sectorId date partySize durationMinutes serviceWindows tz
                    requestedWindowStart requestedWindowEnd limit).
            onGrid (c_start c) \<and> onGrid (c_end c) \<and>
            (\<forall>w \<in> set serviceWindows.
               onGrid (toZonedIso date (fst w) tz) \<longrightarrow>
               (c_start c - toZonedIso date (fst w) tz) mod (15 * 60 * 1000) = 0 \<and>
               (c_end c - toZonedIso date (fst w) tz) mod (15 * 60 * 1000) = 0)) \<and>
         (\<forall>gap :: Gap. wholeMinute (g_start gap) \<and> wholeMinute (g_end gap) \<longrightarrow>
            slotsOfGap durationMinutes gap = specSlots durationMinutes gap)"
proof (intro conjI ballI allI impI)
  fix c assume c: "c \<in> set (findCandidates collate db sectorId date partySize durationMinutes
                    serviceWindows tz requestedWindowStart requestedWindowEnd limit)"
  from findCandidates_origin[OF c] obtain aw g where
    se: "c_start c = g_start g" "c_end c = g_end g" and
    g: "(\<exists>t. g \<in> set (filterGapsByDuration (findTableGaps db t date aw tz) durationMinutes)) \<or>
        (\<exists>ids. g \<in> set (filterGapsByDuration (findComboGaps db ids date aw tz) durationMinutes))"
    by blast
  from g have "onGrid (g_start g) \<and> onGrid (g_end g)"
    using filterGapsByDuration_onGrid[OF findTableGaps_wholeMinute[OF assms(1)] assms(2)]
          filterGapsByDuration_onGrid[OF findComboGaps_wholeMinute[OF assms(1)] assms(2)]
    by blast
  with se show og: "onGrid (c_start c)" and oe: "onGrid (c_end c)" by simp_all
  fix w assume "w \<in> set serviceWindows" and w: "onGrid (toZonedIso date (fst w) tz)"
  from og w show "(c_start c - toZonedIso date (fst w) tz) mod (15 * 60 * 1000) = 0"
    by (simp add: onGrid_def mod_diff_eq[symmetric] del: mod_diff_eq)
  from oe w show "(c_end c - toZonedIso date (fst w) tz) mod (15 * 60 * 1000) = 0"
    by (simp add: onGrid_def mod_diff_eq[symmetric] del: mod_diff_eq)
next
  fix gap :: Gap assume "wholeMinute (g_start gap) \<and> wholeMinute (g_end gap)"
  then show "slotsOfGap durationMinutes gap = specSlots durationMinutes gap"
    by (simp add: slotsOfGap_spec)
qed

theorem findCandidates_on_grid_witness:
  "wholeMinuteDB bookedDB \<and> (45 :: int) mod 15 = 0 \<and>
   map (\<lambda>c. (c_start c, c_end c))
       (findCandidates codeCollate bookedDB ''S1'' 1 4 45 [((20, 0), (22, 0))] 0 None None 10)
     = [(162000000, 164700000), (162900000, 165600000)] \<and>
   list_all (\<lambda>c. onGrid (c_start c) \<and> onGrid (c_end c))
       (findCandidates codeCollate bookedDB ''S1'' 1 4 45 [((20, 0), (22, 0))] 0 None None 10) \<and>
   slotsOfGap 45 \<lparr>g_start = 162000000, g_end = 165600000\<rparr>
     = specSlots 45 \<lparr>g_start = 162000000, g_end = 165600000\<rparr>"
proof -
  have h1: "wholeMinuteDB bookedDB" by code_simp
  have h2: "(45 :: int) mod 15 = 0" by simp
  have e: "map (\<lambda>c. (c_start c, c_end c))
       (findCandidates codeCollate bookedDB ''S1'' 1 4 45 [((20, 0), (22, 0))] 0 None None 10)
     = [(162000000, 164700000), (162900000, 165600000)]"
    by code_simp
  have w: "wholeMinute (g_start \<lparr>g_start = 162000000, g_end = 165600000\<rparr>) \<and>
           wholeMinute (g_end \<lparr>g_start = 162000000, g_end = 165600000\<rparr>)"
    by (simp add: wholeMinute_def)
  from findCandidates_on_grid[OF h1 h2, of codeCollate "''S1''" 1 4 "[((20, 0), (22, 0))]" 0 None None 10] w
  have "list_all (\<lambda>c. onGrid (c_start c) \<and> onGrid (c_end c))
          (findCandidates codeCollate bookedDB ''S1'' 1 4 45 [((20, 0), (22, 0))] 0 None None 10)"
    and "slotsOfGap 45 \<lparr>g_start = 162000000, g_end = 165600000\<rparr>
           = specSlots 45 \<lparr>g_start = 162000000, g_end = 165600000\<rparr>"
    by (simp_all add: list_all_iff)
  with h1 h2 e show ?thesis by simp
qed

text \<open>
  Not covered by this statement: \<open>roundToSlot\<close> returns its argument unchanged when the
  minute is on the grid, seconds included, so a gap starting at 20:15:30 keeps that start.
\<close>

lemma roundToSlot_keeps_seconds:
  "roundToSlot (158400000 + 15 * 60000 + 30000) Up = 158400000 + 15 * 60000 + 30000"
  by code_simp


end
